theory Spec2Isabelle
  imports Complex_Main "HOL-Library.Multiset"
begin

section \<open>Strings of the server\<close>

text \<open>
  \<^verbatim>\<open>server.js\<close> holds two variants of the same chat backend: one that retrieves passages
  by embeddings (globals \<^verbatim>\<open>knowledge\<close> and \<^verbatim>\<open>embeddings\<close>) and one that retrieves them by
  keywords (global \<^verbatim>\<open>knowledgeChunks\<close>). Functions that exist in both carry the suffix
  \<open>_emb\<close> or \<open>_kw\<close> here.

  A JavaScript string is a sequence of UTF-16 code units. The model works on texts whose
  characters lie in U+0000..U+00FF, one \<^typ>\<open>char\<close> per code unit, so that \<^const>\<open>length\<close>
  is the \<^verbatim>\<open>.length\<close> of the source and \<^const>\<open>take\<close> and \<^const>\<open>drop\<close> are its
  \<^verbatim>\<open>slice\<close>. The character classes below are those of ECMAScript and Unicode on that range.
\<close>

definition NL :: char where
  "NL = CHR 0x0A"

definition CR :: char where
  "CR = CHR 0x0D"

definition SP :: char where
  "SP = CHR 0x20"

definition code :: "char \<Rightarrow> nat" where
  "code c = of_char c"

definition isSpace :: "char \<Rightarrow> bool" where
  \<comment> \<open>\<^verbatim>\<open>\s\<close> and the characters removed by \<^verbatim>\<open>trim()\<close>: TAB, LF, VT, FF, CR, SP, NBSP\<close>
  "isSpace c = (let n = code c in (9 \<le> n \<and> n \<le> 13) \<or> n = 32 \<or> n = 160)"

definition trim :: "string \<Rightarrow> string" where
  "trim s = rev (dropWhile isSpace (rev (dropWhile isSpace s)))"

fun startsWith :: "string \<Rightarrow> string \<Rightarrow> bool" where
  \<comment> \<open>\<^verbatim>\<open>s.startsWith(p)\<close>, the pattern first\<close>
  "startsWith [] s = True"
| "startsWith (p # ps) [] = False"
| "startsWith (p # ps) (c # cs) = (p = c \<and> startsWith ps cs)"

definition endsWith :: "string \<Rightarrow> string \<Rightarrow> bool" where
  "endsWith p s = startsWith (rev p) (rev s)"

fun includesStr :: "string \<Rightarrow> string \<Rightarrow> bool" where
  \<comment> \<open>\<^verbatim>\<open>s.includes(p)\<close>, the pattern first\<close>
  "includesStr p [] = (p = [])"
| "includesStr p (c # cs) = (startsWith p (c # cs) \<or> includesStr p cs)"

fun joinWith :: "string \<Rightarrow> string list \<Rightarrow> string" where
  \<comment> \<open>\<^verbatim>\<open>xs.join(sep)\<close>\<close>
  "joinWith sep [] = []"
| "joinWith sep [x] = x"
| "joinWith sep (x # y # ys) = x @ sep @ joinWith sep (y # ys)"

function splitBlank :: "string \<Rightarrow> string list" where
  \<comment> \<open>\<^verbatim>\<open>s.split(/\n{2,}/)\<close>: a run of two or more line feeds is one separator, matched
      greedily\<close>
  "splitBlank [] = [[]]"
| "splitBlank (c # cs) =
     (if c = NL \<and> startsWith [NL] cs
      then [] # splitBlank (dropWhile (\<lambda>x. x = NL) cs)
      else (case splitBlank cs of [] \<Rightarrow> [[c]] | p # ps \<Rightarrow> (c # p) # ps))"
  by pat_completeness auto
termination
  by (relation "measure length") (auto simp: less_Suc_eq_le length_dropWhile_le)

section \<open>Chunking\<close>

record chunk =
  chunk_text :: string
  chunk_source :: string

definition MAX_emb :: nat where
  "MAX_emb = 800"

definition OVERLAP_emb :: nat where
  "OVERLAP_emb = 150"

definition blocks_emb :: "string \<Rightarrow> string list" where
  \<comment> \<open>\<^verbatim>\<open>text.replace(/\r/g, '').split(/\n{2,}/).map(s => s.trim()).filter(Boolean)\<close>\<close>
  "blocks_emb txt =
     filter (\<lambda>s. s \<noteq> []) (map trim (splitBlank (filter (\<lambda>c. c \<noteq> CR) txt)))"

function slices_emb :: "string \<Rightarrow> nat \<Rightarrow> string list" where
  \<comment> \<open>the \<^verbatim>\<open>while (i < b.length)\<close> loop of the embedding variant, from position \<open>i\<close>:
      the slices it pushes, in order\<close>
  "slices_emb b i =
     (if i < length b
      then (let slice = take MAX_emb (drop i b)
            in if i + MAX_emb \<ge> length b then [slice]
               else slice # slices_emb b (i + (MAX_emb - OVERLAP_emb)))
      else [])"
  by pat_completeness auto
termination
  by (relation "measure (\<lambda>(b, i). length b - i)") (auto simp: MAX_emb_def OVERLAP_emb_def)

definition blockChunks_emb :: "string \<Rightarrow> string list" where
  \<comment> \<open>the body of \<^verbatim>\<open>for (const b of blocks)\<close>\<close>
  "blockChunks_emb b = (if length b \<le> MAX_emb then [b] else slices_emb b 0)"

definition pushChunks_emb :: "string \<Rightarrow> string \<Rightarrow> chunk list \<Rightarrow> chunk list" where
  \<comment> \<open>\<^verbatim>\<open>pushChunks(text, source)\<close> of the embedding variant, on the global \<^verbatim>\<open>knowledge\<close>\<close>
  "pushChunks_emb txt src knowledge =
     (if txt = [] then knowledge
      else knowledge @
        map (\<lambda>t. \<lparr>chunk_text = t, chunk_source = src\<rparr>)
          (concat (map blockChunks_emb (blocks_emb txt))))"

definition parts_kw :: "string \<Rightarrow> string list" where
  \<comment> \<open>\<^verbatim>\<open>text.split(/\n{2,}/).map(s => s.trim()).filter(Boolean)\<close>\<close>
  "parts_kw txt = filter (\<lambda>s. s \<noteq> []) (map trim (splitBlank txt))"

function slices_kw :: "string \<Rightarrow> nat \<Rightarrow> string list" where
  \<comment> \<open>\<^verbatim>\<open>for (let i = 0; i < p.length; i += 2000)\<close>, from position \<open>i\<close>\<close>
  "slices_kw p i =
     (if i < length p then take 2000 (drop i p) # slices_kw p (i + 2000) else [])"
  by pat_completeness auto
termination
  by (relation "measure (\<lambda>(p, i). length p - i)") auto

definition partChunks_kw :: "string \<Rightarrow> string list" where
  "partChunks_kw p = (if length p > 2000 then slices_kw p 0 else [p])"

definition pushChunks_kw :: "string \<Rightarrow> string list \<Rightarrow> string list" where
  \<comment> \<open>\<^verbatim>\<open>pushChunks(text)\<close> of the keyword variant, on the global \<^verbatim>\<open>knowledgeChunks\<close>\<close>
  "pushChunks_kw txt knowledgeChunks =
     (if txt = [] then knowledgeChunks
      else knowledgeChunks @ concat (map partChunks_kw (parts_kw txt)))"

section \<open>JavaScript arrays\<close>

definition jsSlice0 :: "'a list \<Rightarrow> int \<Rightarrow> 'a list" where
  \<comment> \<open>\<^verbatim>\<open>xs.slice(0, e)\<close>: a negative end counts from the end of the array\<close>
  "jsSlice0 xs e = take (if e < 0 then nat (int (length xs) + e) else nat e) xs"

fun insertBy :: "('a \<Rightarrow> 'a \<Rightarrow> int) \<Rightarrow> 'a \<Rightarrow> 'a list \<Rightarrow> 'a list" where
  "insertBy cmp x [] = [x]"
| "insertBy cmp x (y # ys) = (if cmp x y \<le> 0 then x # y # ys else y # insertBy cmp x ys)"

definition jsSort :: "('a \<Rightarrow> 'a \<Rightarrow> int) \<Rightarrow> 'a list \<Rightarrow> 'a list" where
  \<comment> \<open>\<^verbatim>\<open>xs.sort(cmp)\<close>, where the sign of \<open>cmp a b\<close> is what the comparator returns: a
      stable sort, as the language requires. Where the comparator is not a consistent
      ordering the language leaves the order to the engine; the theorems below use
      \<open>jsSort\<close> on consistent comparators only.\<close>
  "jsSort cmp xs = foldr (insertBy cmp) xs []"

definition setAdd :: "'a \<Rightarrow> 'a list \<Rightarrow> 'a list" where
  \<comment> \<open>\<^verbatim>\<open>set.add(x)\<close> on a \<^verbatim>\<open>Set\<close> held as the list of its members in insertion order\<close>
  "setAdd x xs = (if x \<in> set xs then xs else xs @ [x])"

definition newSet :: "'a list \<Rightarrow> 'a list" where
  \<comment> \<open>\<^verbatim>\<open>new Set(xs)\<close>\<close>
  "newSet xs = fold setAdd xs []"

section \<open>The keyword retriever\<close>

definition isLetter :: "char \<Rightarrow> bool" where
  \<comment> \<open>\<^verbatim>\<open>\p{L}\<close> on U+0000..U+00FF\<close>
  "isLetter c = (let n = code c in
     (65 \<le> n \<and> n \<le> 90) \<or> (97 \<le> n \<and> n \<le> 122) \<or> n = 170 \<or> n = 181 \<or> n = 186 \<or>
     (192 \<le> n \<and> n \<le> 214) \<or> (216 \<le> n \<and> n \<le> 246) \<or> (248 \<le> n \<and> n \<le> 255))"

definition isNumber :: "char \<Rightarrow> bool" where
  \<comment> \<open>\<^verbatim>\<open>\p{N}\<close> on U+0000..U+00FF\<close>
  "isNumber c = (let n = code c in
     (48 \<le> n \<and> n \<le> 57) \<or> n = 178 \<or> n = 179 \<or> n = 185 \<or> (188 \<le> n \<and> n \<le> 190))"

definition isDigit :: "char \<Rightarrow> bool" where
  \<comment> \<open>\<^verbatim>\<open>\d\<close>\<close>
  "isDigit c = (let n = code c in 48 \<le> n \<and> n \<le> 57)"

definition isWord :: "char \<Rightarrow> bool" where
  \<comment> \<open>\<^verbatim>\<open>\w\<close>, which decides \<^verbatim>\<open>\b\<close>: \<^verbatim>\<open>[A-Za-z0-9_]\<close>\<close>
  "isWord c = (let n = code c in
     (65 \<le> n \<and> n \<le> 90) \<or> (97 \<le> n \<and> n \<le> 122) \<or> (48 \<le> n \<and> n \<le> 57) \<or> n = 95)"

definition toLowerChar :: "char \<Rightarrow> char" where
  "toLowerChar c = (let n = code c in
     if (65 \<le> n \<and> n \<le> 90) \<or> (192 \<le> n \<and> n \<le> 214) \<or> (216 \<le> n \<and> n \<le> 222)
     then char_of (n + 32) else c)"

definition toLowerCase :: "string \<Rightarrow> string" where
  "toLowerCase s = map toLowerChar s"

function collapseSpaces :: "string \<Rightarrow> string" where
  \<comment> \<open>\<^verbatim>\<open>s.replace(/\s+/g, ' ')\<close>\<close>
  "collapseSpaces [] = []"
| "collapseSpaces (c # cs) =
     (if isSpace c then SP # collapseSpaces (dropWhile isSpace cs)
      else c # collapseSpaces cs)"
  by pat_completeness auto
termination
  by (relation "measure length") (auto simp: less_Suc_eq_le length_dropWhile_le)

definition norm :: "string \<Rightarrow> string" where
  \<comment> \<open>\<^verbatim>\<open>(s || '').toLowerCase().replace(/[^\p{L}\p{N}\s]/gu, ' ').replace(/\s+/g, ' ').trim()\<close>\<close>
  "norm s =
     trim (collapseSpaces
       (map (\<lambda>c. if isLetter c \<or> isNumber c \<or> isSpace c then c else SP) (toLowerCase s)))"

fun splitOn :: "char \<Rightarrow> string \<Rightarrow> string list" where
  \<comment> \<open>\<^verbatim>\<open>s.split(sep)\<close> for a separator of one character\<close>
  "splitOn sep [] = [[]]"
| "splitOn sep (c # cs) =
     (if c = sep then [] # splitOn sep cs
      else (case splitOn sep cs of [] \<Rightarrow> [[c]] | p # ps \<Rightarrow> (c # p) # ps))"

definition synonymSets :: "string list list" where
  "synonymSets =
    [[''retest'', ''re test'', ''re-test'', ''retake'', ''re take'', ''re-take''],
     [''fee'', ''cost'', ''charge'', ''payment'', ''price''],
     [''wait'', ''waiting'', ''delay'', ''hold'', ''gap'', ''cooldown'', ''cool down''],
     [''period'', ''window'', ''timeframe'', ''timeline''],
     [''hours'', ''requirements'', ''prerequisites'', ''prereq''],
     [''policy'', ''rule'', ''guideline'', ''guidance''],
     [''exam'', ''practical'', ''test'', ''assessment''],
     [''schedule'', ''book'', ''arrange'']]"

definition phraseBoosts :: "string list" where
  "phraseBoosts =
    [''retest fee'', ''re test fee'', ''re-test fee'', ''waiting period'', ''wait period'',
     ''retest waiting'', ''re test waiting'', ''re-test waiting'', ''how many hours'',
     ''hours to retest'', ''hours before retest'']"

definition addSynonyms :: "string list \<Rightarrow> string list \<Rightarrow> string list" where
  \<comment> \<open>the body of \<^verbatim>\<open>for (const set of synonymSets)\<close>, on \<^verbatim>\<open>qTokens\<close>\<close>
  "addSynonyms syns qTokens =
     (if \<exists>w \<in> set syns. w \<in> set qTokens then fold setAdd syns qTokens else qTokens)"

definition qTokens :: "string \<Rightarrow> string list" where
  \<comment> \<open>\<^verbatim>\<open>qTokens\<close> after the synonym loop, from the normalised question \<open>q\<close>\<close>
  "qTokens q =
     fold addSynonyms synonymSets
       (newSet (filter (\<lambda>w. length w > 2) (splitOn SP q)))"

definition wordEnd :: "string \<Rightarrow> bool" where
  \<comment> \<open>\<^verbatim>\<open>\b\<close> after a word character: the rest is empty or starts with a non-word character\<close>
  "wordEnd s = (case s of [] \<Rightarrow> True | c # cs \<Rightarrow> \<not> isWord c)"

definition reTestHere :: "string \<Rightarrow> bool" where
  \<comment> \<open>\<^verbatim>\<open>re[\s-]?test\b\<close> matches at the start of the string\<close>
  "reTestHere s =
     (startsWith ''re'' s \<and>
      (case drop 2 s of
         [] \<Rightarrow> False
       | c # cs \<Rightarrow>
           ((isSpace c \<or> c = CHR ''-'') \<and> startsWith ''test'' cs \<and> wordEnd (drop 4 cs)) \<or>
           (startsWith ''test'' (c # cs) \<and> wordEnd (drop 4 (c # cs)))))"

fun reTestScan :: "bool \<Rightarrow> string \<Rightarrow> bool" where
  \<comment> \<open>the flag says whether the character before the string is a word character\<close>
  "reTestScan prevWord [] = False"
| "reTestScan prevWord (c # cs) =
     ((\<not> prevWord \<and> reTestHere (c # cs)) \<or> reTestScan (isWord c) cs)"

definition hasReTest :: "string \<Rightarrow> bool" where
  \<comment> \<open>\<^verbatim>\<open>/\bre[\s-]?test\b/.test(s)\<close>\<close>
  "hasReTest s = reTestScan False s"

fun numberScan :: "bool \<Rightarrow> string \<Rightarrow> bool" where
  "numberScan prevWord [] = False"
| "numberScan prevWord (c # cs) = ((\<not> prevWord \<and> isDigit c) \<or> numberScan (isWord c) cs)"

definition hasNumber :: "string \<Rightarrow> bool" where
  \<comment> \<open>\<^verbatim>\<open>/\b\d+/.test(s)\<close>\<close>
  "hasNumber s = numberScan False s"

definition score :: "string \<Rightarrow> string \<Rightarrow> int" where
  \<comment> \<open>the \<^verbatim>\<open>score\<close> that the callback of \<^verbatim>\<open>knowledgeChunks.map\<close> computes for chunk \<open>c\<close>,
      from the normalised question \<open>q\<close>\<close>
  "score q c =
     (let text = norm c;
          s1 = int (length (filter (\<lambda>t. includesStr t text) (qTokens q)));
          s2 = s1 + 6 * int (length (filter (\<lambda>p. includesStr p text) phraseBoosts));
          s3 = (if hasReTest q \<and> hasReTest text then s2 + 4 else s2);
          hasNumberInQ = hasNumber q;
          hasNumberInC = hasNumber text
      in if hasNumberInQ \<and> hasNumberInC then s3 + 2 else s3)"

definition scored :: "string \<Rightarrow> string list \<Rightarrow> (string \<times> int) list" where
  \<comment> \<open>\<^verbatim>\<open>knowledgeChunks.map(c => ... ({ c, score }))\<close>\<close>
  "scored question chunks = map (\<lambda>c. (c, score (norm question) c)) chunks"

record entry =
  ename :: string
  isFile :: "bool option"
  fileData :: "string option"

datatype directory = Missing | Unlistable | Listing "entry list"

record world_kw =
  knowledgeChunks :: "string list"
  instructions :: string
  knowledgeDir_kw :: directory

text \<open>
  \<^verbatim>\<open>knowledgeChunks\<close> and \<^verbatim>\<open>instructions\<close> are the globals of the keyword variant and
  \<open>knowledgeDir_kw\<close> is the disk: what \<^verbatim>\<open>existsSync\<close> and \<^verbatim>\<open>readdirSync\<close> give for
  \<^verbatim>\<open>KNOWLEDGE_DIR\<close>. Of an entry, \<open>isFile\<close> is the answer of
  \<^verbatim>\<open>statSync(full).isFile()\<close> and \<open>fileData\<close> what \<^verbatim>\<open>readFileSync\<close> reads, each \<open>None\<close>
  where the call throws.
\<close>

definition findRelevantChunks :: "world_kw \<Rightarrow> string \<Rightarrow> int \<Rightarrow> string list" where
  "findRelevantChunks st question max' =
     (if knowledgeChunks st = [] then []
      else map fst
        (filter (\<lambda>x. snd x > 0)
          (jsSlice0 (jsSort (\<lambda>a b. snd b - snd a) (scored question (knowledgeChunks st))) max')))"

section \<open>Services outside the program\<close>

text \<open>
  A call that throws returns \<open>Inl m\<close>, where \<open>m\<close> is the \<^verbatim>\<open>message\<close> of the error; for an
  error that the engine or the file system throws, \<open>m\<close> is the name of the error or of the
  failing call. The hosted services and the PDF parser are parameters of the model; nothing is assumed of
  what they answer. Every call to a hosted service is recorded, in order, in the list of
  calls that a function returns.
\<close>

datatype role = System | User

type_synonym prompt = "(role \<times> string) list"

type_synonym item = "string option"

type_synonym event = "item list option"

record llm_out =
  out_output_text :: "string option"
  out_output :: "event list option"
  out_response_output_text :: "string option"

text \<open>
  An \<open>item\<close> is \<^verbatim>\<open>c?.text?.value\<close> of a content item and an \<open>event\<close> is
  \<^verbatim>\<open>ev?.content\<close> of an output event, \<open>None\<close> where the source reads \<^verbatim>\<open>undefined\<close>.
  Of the answer \<^verbatim>\<open>out\<close> of the model, \<open>out_output_text\<close> is \<^verbatim>\<open>out.output_text\<close>,
  \<open>out_output\<close> is \<^verbatim>\<open>out.output\<close> when that is an array, and
  \<open>out_response_output_text\<close> is \<^verbatim>\<open>out?.response?.output_text\<close>.
\<close>

datatype api_call = EmbeddingsCreate "string list" | ResponsesCreate prompt

record 'n services =
  embeddings_create :: "string list \<Rightarrow> string + 'n list list"
  responses_create :: "prompt \<Rightarrow> string + llm_out"
  pdfParse :: "(string \<Rightarrow> string + string) option"

text \<open>
  \<^verbatim>\<open>embeddings_create\<close> answers with the list of the \<^verbatim>\<open>embedding\<close> fields of
  \<^verbatim>\<open>resp.data\<close>; \<^verbatim>\<open>pdfParse\<close> is absent when the module could not be loaded, and
  otherwise answers with \<^verbatim>\<open>parsed.text || ''\<close>.

  The numbers of an embedding vector are IEEE doubles. Their arithmetic belongs to the
  engine and is a parameter as well: a type \<open>'n\<close> of numbers with the operations that
  \<^verbatim>\<open>cosineSim\<close> and the comparator of the sort use.
\<close>

record 'n arith =
  fadd :: "'n \<Rightarrow> 'n \<Rightarrow> 'n"
  fsub :: "'n \<Rightarrow> 'n \<Rightarrow> 'n"
  fmul :: "'n \<Rightarrow> 'n \<Rightarrow> 'n"
  fdiv :: "'n \<Rightarrow> 'n \<Rightarrow> 'n"
  fsqrt :: "'n \<Rightarrow> 'n"
  fzero :: 'n
  feps :: 'n
  fundefined :: 'n
  fsign :: "'n \<Rightarrow> int"

text \<open>
  \<open>fzero\<close> is the literal \<^verbatim>\<open>0\<close>, \<open>feps\<close> the literal \<^verbatim>\<open>1e-8\<close>, \<open>fundefined\<close> the number
  that \<^verbatim>\<open>undefined\<close> becomes in a product (NaN), and \<open>fsign\<close> the sign that
  \<^verbatim>\<open>Array.prototype.sort\<close> reads off the comparator's result (zero for NaN).
\<close>

section \<open>The embedding retriever\<close>

fun cosineLoop :: "'n arith \<Rightarrow> 'n list \<Rightarrow> 'n list \<Rightarrow> 'n \<times> 'n \<times> 'n \<Rightarrow> 'n \<times> 'n \<times> 'n" where
  \<comment> \<open>the \<^verbatim>\<open>for\<close> loop of \<^verbatim>\<open>cosineSim\<close> on what is left of \<open>a\<close> and \<open>b\<close>; where \<open>b\<close> is
      shorter than \<open>a\<close>, \<^verbatim>\<open>b[i]\<close> is \<^verbatim>\<open>undefined\<close>\<close>
  "cosineLoop fp [] b acc = acc"
| "cosineLoop fp (x # xs) b (dot, na, nb) =
     (let y = (case b of [] \<Rightarrow> fundefined fp | y # ys \<Rightarrow> y)
      in cosineLoop fp xs (tl b)
           (fadd fp dot (fmul fp x y), fadd fp na (fmul fp x x), fadd fp nb (fmul fp y y)))"

definition cosineSim :: "'n arith \<Rightarrow> 'n list \<Rightarrow> 'n list \<Rightarrow> 'n" where
  "cosineSim fp a b =
     (case cosineLoop fp a b (fzero fp, fzero fp, fzero fp) of
        (dot, na, nb) \<Rightarrow>
          fdiv fp dot (fadd fp (fmul fp (fsqrt fp na) (fsqrt fp nb)) (feps fp)))"

datatype 'n index_file = NoIndex | BadIndex | Index "'n list list"

record 'n world =
  knowledge :: "chunk list"
  embeddings :: "'n list list"
  knowledgeDir :: directory
  indexFile :: "'n index_file"
  indexWritable :: bool

text \<open>
  \<^verbatim>\<open>knowledge\<close> and \<^verbatim>\<open>embeddings\<close> are the globals of the embedding variant; the other
  fields are the disk, \<open>knowledgeDir\<close> as in the keyword variant.
  \<open>indexFile\<close> is \<^verbatim>\<open>.index.json\<close>: absent, without a readable array \<^verbatim>\<open>embeddings\<close>, or
  holding one; \<open>indexWritable\<close> says whether \<^verbatim>\<open>writeFileSync\<close> succeeds, and a written
  index is read back as it was written.
\<close>

definition nthOpt :: "'a list \<Rightarrow> nat \<Rightarrow> 'a option" where
  \<comment> \<open>\<^verbatim>\<open>xs[i]\<close>, \<open>None\<close> for \<^verbatim>\<open>undefined\<close>\<close>
  "nthOpt xs i = (if i < length xs then Some (xs ! i) else None)"

definition scoredEmbedding :: "'n arith \<Rightarrow> 'n list \<Rightarrow> 'n list list \<Rightarrow> (nat \<times> 'n) list" where
  \<comment> \<open>\<^verbatim>\<open>embeddings.map((vec, i) => ({ i, s: cosineSim(qVec, vec) }))\<close>\<close>
  "scoredEmbedding fp qVec embs = map (\<lambda>(i, vec). (i, cosineSim fp qVec vec)) (enumerate 0 embs)"

definition byScore :: "'n arith \<Rightarrow> nat \<times> 'n \<Rightarrow> nat \<times> 'n \<Rightarrow> int" where
  \<comment> \<open>\<^verbatim>\<open>(a, b) => b.s - a.s\<close>\<close>
  "byScore fp a b = fsign fp (fsub fp (snd b) (snd a))"

definition findRelevantChunksEmbedding ::
  "'n services \<Rightarrow> 'n arith \<Rightarrow> 'n world \<Rightarrow> string \<Rightarrow> int
     \<Rightarrow> (string + chunk option list) \<times> api_call list" where
  "findRelevantChunksEmbedding svc fp w question k =
     (if knowledge w = [] \<or> embeddings w = [] then (Inr [], [])
      else
        (case embeddings_create svc [question] of
           Inl e \<Rightarrow> (Inl e, [EmbeddingsCreate [question]])
         | Inr [] \<Rightarrow> (Inl ''TypeError'', [EmbeddingsCreate [question]])
         | Inr (qVec # others) \<Rightarrow>
             (Inr (map (\<lambda>(i, s). nthOpt (knowledge w) i)
                    (jsSlice0 (jsSort (byScore fp) (scoredEmbedding fp qVec (embeddings w))) k)),
              [EmbeddingsCreate [question]])))"

section \<open>Loading the corpus\<close>

definition normName :: "string \<Rightarrow> string" where
  \<comment> \<open>\<^verbatim>\<open>f.replace(/\.(pdf|txt)$/i, '').trim()\<close>\<close>
  "normName f =
     trim (if endsWith ''.pdf'' (toLowerCase f) \<or> endsWith ''.txt'' (toLowerCase f)
           then take (length f - 4) f else f)"

fun loadFiles_emb ::
  "(string \<Rightarrow> string + string) option \<Rightarrow> entry list \<Rightarrow> chunk list \<Rightarrow> (string + unit) \<times> chunk list"
  where
  \<comment> \<open>\<^verbatim>\<open>for (const f of files)\<close> of the embedding variant, on the global \<^verbatim>\<open>knowledge\<close>\<close>
  "loadFiles_emb pdf [] kn = (Inr (), kn)"
| "loadFiles_emb pdf (f # fs) kn =
     (case isFile f of
        None \<Rightarrow> (Inl ''statSync'', kn)
      | Some False \<Rightarrow> loadFiles_emb pdf fs kn
      | Some True \<Rightarrow>
          (let lower = toLowerCase (ename f) in
           if endsWith ''.txt'' lower then
             (case fileData f of
                None \<Rightarrow> loadFiles_emb pdf fs kn
              | Some txt \<Rightarrow> loadFiles_emb pdf fs (pushChunks_emb txt (normName (ename f)) kn))
           else if endsWith ''.pdf'' lower then
             (case pdf of
                None \<Rightarrow> loadFiles_emb pdf fs kn
              | Some parse \<Rightarrow>
                  (case fileData f of
                     None \<Rightarrow> loadFiles_emb pdf fs kn
                   | Some data \<Rightarrow>
                       (case parse data of
                          Inl e \<Rightarrow> loadFiles_emb pdf fs kn
                        | Inr txt \<Rightarrow>
                            loadFiles_emb pdf fs (pushChunks_emb txt (normName (ename f)) kn))))
           else loadFiles_emb pdf fs kn))"

definition BATCH :: nat where
  "BATCH = 64"

function embedLoop ::
  "'n services \<Rightarrow> string list \<Rightarrow> nat \<Rightarrow> 'n list list \<Rightarrow> (string + 'n list list) \<times> api_call list"
  where
  \<comment> \<open>\<^verbatim>\<open>for (let i = 0; i < texts.length; i += BATCH)\<close>, from \<open>i\<close> with \<^verbatim>\<open>all\<close> as it is\<close>
  "embedLoop svc texts i all =
     (if i < length texts
      then (let batch = take BATCH (drop i texts)
            in case embeddings_create svc batch of
                 Inl e \<Rightarrow> (Inl e, [EmbeddingsCreate batch])
               | Inr data \<Rightarrow>
                   (case embedLoop svc texts (i + BATCH) (all @ data) of
                      (r, cs) \<Rightarrow> (r, EmbeddingsCreate batch # cs)))
      else (Inr all, []))"
  by pat_completeness auto
termination
  by (relation "measure (\<lambda>(svc, texts, i, all). length texts - i)") (auto simp: BATCH_def)

definition buildOrLoadEmbeddings ::
  "'n services \<Rightarrow> 'n world \<Rightarrow> (string + unit) \<times> 'n world \<times> api_call list" where
  "buildOrLoadEmbeddings svc w =
     (case (case indexFile w of
              Index es \<Rightarrow> if length es = length (knowledge w) then Some es else None
            | _ \<Rightarrow> None) of
        Some es \<Rightarrow> (Inr (), w\<lparr>embeddings := es\<rparr>, [])
      | None \<Rightarrow>
          (case embedLoop svc (map chunk_text (knowledge w)) 0 [] of
             (Inl e, cs) \<Rightarrow> (Inl e, w, cs)
           | (Inr all, cs) \<Rightarrow>
               (Inr (),
                w\<lparr>embeddings := all,
                  indexFile := (if indexWritable w then Index all else indexFile w)\<rparr>,
                cs)))"

definition loadKnowledge_emb ::
  "'n services \<Rightarrow> 'n world \<Rightarrow> (string + unit) \<times> 'n world \<times> api_call list" where
  "loadKnowledge_emb svc w =
     (let w0 = w\<lparr>knowledge := [], embeddings := []\<rparr>
      in case knowledgeDir w of
           Missing \<Rightarrow> (Inr (), w0, [])
         | Unlistable \<Rightarrow> (Inl ''readdirSync'', w0, [])
         | Listing files \<Rightarrow>
             (case loadFiles_emb (pdfParse svc)
                     (filter (\<lambda>f. \<not> startsWith ''.'' (ename f)) files) [] of
                (Inl e, kn) \<Rightarrow> (Inl e, w0\<lparr>knowledge := kn\<rparr>, [])
              | (Inr u, kn) \<Rightarrow> buildOrLoadEmbeddings svc (w0\<lparr>knowledge := kn\<rparr>)))"

fun loadFiles_kw ::
  "(string \<Rightarrow> string + string) option \<Rightarrow> entry list \<Rightarrow> string list \<Rightarrow> (string + unit) \<times> string list"
  where
  \<comment> \<open>\<^verbatim>\<open>for (const f of files)\<close> of the keyword variant, on the global \<^verbatim>\<open>knowledgeChunks\<close>\<close>
  "loadFiles_kw pdf [] kc = (Inr (), kc)"
| "loadFiles_kw pdf (f # fs) kc =
     (case isFile f of
        None \<Rightarrow> (Inl ''statSync'', kc)
      | Some False \<Rightarrow> loadFiles_kw pdf fs kc
      | Some True \<Rightarrow>
          (let lower = toLowerCase (ename f) in
           if endsWith ''.txt'' lower then
             (case fileData f of
                None \<Rightarrow> loadFiles_kw pdf fs kc
              | Some txt \<Rightarrow> loadFiles_kw pdf fs (pushChunks_kw txt kc))
           else if endsWith ''.pdf'' lower then
             (case pdf of
                None \<Rightarrow> loadFiles_kw pdf fs kc
              | Some parse \<Rightarrow>
                  (case fileData f of
                     None \<Rightarrow> loadFiles_kw pdf fs kc
                   | Some data \<Rightarrow>
                       (case parse data of
                          Inl e \<Rightarrow> loadFiles_kw pdf fs kc
                        | Inr txt \<Rightarrow> loadFiles_kw pdf fs (pushChunks_kw txt kc))))
           else loadFiles_kw pdf fs kc))"

definition loadKnowledge_kw ::
  "(string \<Rightarrow> string + string) option \<Rightarrow> world_kw \<Rightarrow> (string + unit) \<times> world_kw" where
  \<comment> \<open>the keyword variant's \<^verbatim>\<open>loadKnowledge\<close>; the first argument is \<^verbatim>\<open>pdfParse\<close>\<close>
  "loadKnowledge_kw pdf w =
     (let w0 = w\<lparr>knowledgeChunks := []\<rparr>
      in case knowledgeDir_kw w of
           Missing \<Rightarrow> (Inr (), w0)
         | Unlistable \<Rightarrow> (Inl ''readdirSync'', w0)
         | Listing files \<Rightarrow>
             (case loadFiles_kw pdf files [] of
                (r, kc) \<Rightarrow> (r, w0\<lparr>knowledgeChunks := kc\<rparr>)))"

datatype reload_response = ReloadOk nat | ReloadError string

definition reload_emb ::
  "'n services \<Rightarrow> 'n world \<Rightarrow> reload_response \<times> 'n world \<times> api_call list" where
  \<comment> \<open>\<^verbatim>\<open>app.post('/reload', ...)\<close> of the embedding variant\<close>
  "reload_emb svc w =
     (case loadKnowledge_emb svc w of
        (Inl e, w', cs) \<Rightarrow> (ReloadError e, w', cs)
      | (Inr u, w', cs) \<Rightarrow> (ReloadOk (length (knowledge w')), w', cs))"

section \<open>The chat route\<close>

text \<open>
  The literals of the route hold two characters beyond U+00FF, the right single quotation
  mark U+2019 and the en dash U+2013. They are the constants \<open>RSQUO\<close> and \<open>ENDASH\<close>,
  which stand for them in the 8-bit alphabet of the model.
\<close>

definition RSQUO :: char where
  "RSQUO = CHR 0x27"

definition ENDASH :: char where
  "ENDASH = CHR 0x2D"

definition REGISTERED :: char where
  "REGISTERED = CHR 0xAE"

function showNat :: "nat \<Rightarrow> string" where
  \<comment> \<open>the decimal digits of a natural number, as a template literal renders it\<close>
  "showNat n =
     (if n < 10 then [char_of (48 + n)] else showNat (n div 10) @ [char_of (48 + n mod 10)])"
  by pat_completeness auto
termination
  by (relation "measure id") auto

datatype chat_response = Reply string | ServerError string

text \<open>
  \<open>Reply r\<close> is the answer \<^verbatim>\<open>res.json({ reply })\<close> with status 200, and \<open>ServerError e\<close>
  the answer \<^verbatim>\<open>res.status(500).json({ error })\<close>. The request is given by its message:
  \<open>None\<close> when \<^verbatim>\<open>req.body\<close> or \<^verbatim>\<open>req.body.message\<close> is missing or falsy, and \<open>Some s\<close> with
  \<open>s\<close> the string \<^verbatim>\<open>String(req.body.message)\<close> otherwise. A message whose conversion
  throws is treated with the whole route, \<open>postChat_emb\<close> and \<open>postChat_kw\<close> below.
\<close>

definition userMessageOf :: "string option \<Rightarrow> string" where
  \<comment> \<open>\<^verbatim>\<open>(req.body && req.body.message) ? String(req.body.message) : ''\<close>\<close>
  "userMessageOf message = (case message of None \<Rightarrow> [] | Some s \<Rightarrow> s)"

definition orEmpty :: "string option \<Rightarrow> string" where
  \<comment> \<open>\<^verbatim>\<open>v || ''\<close>\<close>
  "orEmpty v = (case v of None \<Rightarrow> [] | Some s \<Rightarrow> s)"

definition truthy :: "string option \<Rightarrow> bool" where
  "truthy v = (case v of None \<Rightarrow> False | Some s \<Rightarrow> s \<noteq> [])"

definition outputEventsText :: "event list \<Rightarrow> string" where
  \<comment> \<open>\<^verbatim>\<open>out.output.flatMap(ev => (ev?.content || [])).map(c => c?.text?.value || '')
      .join('\n').trim()\<close>\<close>
  "outputEventsText evs =
     trim (joinWith [NL]
       (map orEmpty
         (concat (map (\<lambda>ev. case ev of None \<Rightarrow> [] | Some cs \<Rightarrow> cs) evs))))"

definition serverError :: "string \<Rightarrow> chat_response" where
  \<comment> \<open>the \<^verbatim>\<open>catch\<close> of the route: \<^verbatim>\<open>e.message || 'Server error'\<close>\<close>
  "serverError e = ServerError (if e = [] then ''Server error'' else e)"

subsection \<open>Embedding variant\<close>

definition system_emb :: string where
  "system_emb =
     ''You are the Real Pilates'' @ [REGISTERED] @ '' Studio Team Assistant.\<newline>'' @
     ''Use warm, professional, concise language (2'' @ [ENDASH] @ ''4 sentences).\<newline>'' @
     ''Answer ONLY from \"Studio Reference\" below. If the answer is not clearly present, say \"I don''
       @ [RSQUO] @ ''t have that in the RP Studio docs.\"\<newline>'' @
     ''Cite the primary source in parentheses at the end, e.g., \"(Employee Handbook)\".''"

definition fallback_emb :: string where
  "fallback_emb = ''I don'' @ [RSQUO] @ ''t have that in the RP Studio docs.''"

fun hitLines_emb :: "nat \<Rightarrow> chunk option list \<Rightarrow> string + string list" where
  \<comment> \<open>\<^verbatim>\<open>hits.map((h, i) => `[${i + 1}] (${h.source}) ${h.text}`)\<close> from index \<open>i\<close>; reading
      \<^verbatim>\<open>h.source\<close> of \<^verbatim>\<open>undefined\<close> throws\<close>
  "hitLines_emb i [] = Inr []"
| "hitLines_emb i (None # hs) = Inl ''TypeError''"
| "hitLines_emb i (Some h # hs) =
     (case hitLines_emb (i + 1) hs of
        Inl e \<Rightarrow> Inl e
      | Inr ls \<Rightarrow>
          Inr ((''['' @ showNat (i + 1) @ ''] ('' @ chunk_source h @ '') '' @ chunk_text h) # ls))"

definition context_emb :: "chunk option list \<Rightarrow> string + string" where
  "context_emb hits =
     (if hits = [] then Inr []
      else case hitLines_emb 0 hits of
             Inl e \<Rightarrow> Inl e
           | Inr ls \<Rightarrow>
               Inr (''\<newline>\<newline>Studio Reference:\<newline>'' @ joinWith ''\<newline>\<newline>'' ls @
                    ''\<newline>\<newline>''))"

definition answerText_emb :: "llm_out \<Rightarrow> string" where
  \<comment> \<open>\<^verbatim>\<open>reply\<close> before the fallback: from \<^verbatim>\<open>let reply = ''\<close> to the end of the
      \<^verbatim>\<open>if\<close>/\<^verbatim>\<open>else if\<close>\<close>
  "answerText_emb out =
     (if truthy (out_output_text out) then orEmpty (out_output_text out)
      else case out_output out of None \<Rightarrow> [] | Some evs \<Rightarrow> outputEventsText evs)"

definition extractReply_emb :: "llm_out \<Rightarrow> string" where
  \<comment> \<open>\<^verbatim>\<open>reply = reply || '...'\<close>\<close>
  "extractReply_emb out =
     (let reply = answerText_emb out in if reply = [] then fallback_emb else reply)"

definition chat_emb ::
  "'n services \<Rightarrow> 'n arith \<Rightarrow> 'n world \<Rightarrow> string option \<Rightarrow> chat_response \<times> api_call list"
  where
  \<comment> \<open>\<^verbatim>\<open>app.post('/api/chat', ...)\<close> of the embedding variant\<close>
  "chat_emb svc fp w message =
     (let userMessage = userMessageOf message
      in case findRelevantChunksEmbedding svc fp w userMessage 8 of
           (Inl e, cs) \<Rightarrow> (serverError e, cs)
         | (Inr hits, cs) \<Rightarrow>
             (case context_emb hits of
                Inl e \<Rightarrow> (serverError e, cs)
              | Inr context \<Rightarrow>
                  (let input = [(System, system_emb @ context), (User, userMessage)]
                   in case responses_create svc input of
                        Inl e \<Rightarrow> (serverError e, cs @ [ResponsesCreate input])
                      | Inr out \<Rightarrow> (Reply (extractReply_emb out), cs @ [ResponsesCreate input]))))"

subsection \<open>Keyword variant\<close>

definition system_kw :: "string \<Rightarrow> string" where
  \<comment> \<open>the template literal \<^verbatim>\<open>system\<close>, from the global \<^verbatim>\<open>instructions\<close>\<close>
  "system_kw instr =
     ''You are the Real Pilates'' @ [REGISTERED] @ '' Studio Team Assistant.\<newline>'' @
     ''Use warm, professional, on-brand language aligned with Real Pilates'' @ [REGISTERED] @
       '' studio operations.\<newline>'' @
     ''ONLY answer using the Studio policies and the provided \"Studio Reference\" context below.\<newline>'' @
     ''If the answer is not clearly present, say: \"I don'' @ [RSQUO] @
       ''t have that in the RP Studio docs.\"'' @
     (if instr \<noteq> [] then ''\<newline>\<newline>'' @ instr else [])"

definition fallback_kw :: string where
  "fallback_kw = ''I don'' @ [RSQUO] @ ''t have that in the RPTT Guide.''"

fun hitLines_kw :: "nat \<Rightarrow> string list \<Rightarrow> string list" where
  \<comment> \<open>\<^verbatim>\<open>hits.map((c, i) => `[${i + 1}] ${c}`)\<close> from index \<open>i\<close>\<close>
  "hitLines_kw i [] = []"
| "hitLines_kw i (c # cs) = (''['' @ showNat (i + 1) @ ''] '' @ c) # hitLines_kw (i + 1) cs"

definition context_kw :: "string list \<Rightarrow> string" where
  "context_kw hits =
     (if hits = [] then []
      else ''\<newline>\<newline>Studio Reference (from uploaded PDFs):\<newline>'' @
           joinWith ''\<newline>\<newline>'' (hitLines_kw 0 hits) @ ''\<newline>\<newline>'')"

definition answerText_kw :: "llm_out \<Rightarrow> string" where
  \<comment> \<open>\<^verbatim>\<open>reply\<close> before the fallback, with the third source \<^verbatim>\<open>out?.response?.output_text\<close>\<close>
  "answerText_kw out =
     (let reply =
        (if truthy (out_output_text out) then orEmpty (out_output_text out)
         else case out_output out of None \<Rightarrow> [] | Some evs \<Rightarrow> outputEventsText evs)
      in if reply = [] \<and> truthy (out_response_output_text out)
         then orEmpty (out_response_output_text out) else reply)"

definition extractReply_kw :: "llm_out \<Rightarrow> string" where
  "extractReply_kw out =
     (let reply = answerText_kw out in if reply = [] then fallback_kw else reply)"

definition chat_kw ::
  "(prompt \<Rightarrow> string + llm_out) \<Rightarrow> world_kw \<Rightarrow> string option
     \<Rightarrow> chat_response \<times> api_call list" where
  \<comment> \<open>\<^verbatim>\<open>app.post('/api/chat', ...)\<close> of the keyword variant; the first argument is
      \<^verbatim>\<open>client.responses.create\<close>\<close>
  "chat_kw create st message =
     (let userMessage = userMessageOf message;
          hits = findRelevantChunks st userMessage 5;
          context = context_kw hits;
          input = [(System, system_kw (instructions st) @ context), (User, userMessage)]
      in case create input of
           Inl e \<Rightarrow> (serverError e, [ResponsesCreate input])
         | Inr out \<Rightarrow> (Reply (extractReply_kw out), [ResponsesCreate input]))"

subsection \<open>The request\<close>

datatype request = Falsy | Printable string | Unprintable

text \<open>
  Of a request, \<^verbatim>\<open>req.body\<close> or \<^verbatim>\<open>req.body.message\<close> is missing or falsy (\<open>Falsy\<close>), or the
  message is truthy and \<^verbatim>\<open>String(req.body.message)\<close> returns a string (\<open>Printable\<close>), or
  the message is truthy and the conversion throws (\<open>Unprintable\<close>), as it does for an
  object whose \<^verbatim>\<open>toString\<close> and \<^verbatim>\<open>valueOf\<close> cannot be called. The conversion is the first
  statement inside the \<^verbatim>\<open>try\<close> of both routes; \<open>chat_emb\<close> and \<open>chat_kw\<close> above are the routes
  from that statement on.
\<close>

definition postChat_emb ::
  "'n services \<Rightarrow> 'n arith \<Rightarrow> 'n world \<Rightarrow> request \<Rightarrow> chat_response \<times> api_call list" where
  "postChat_emb svc fp w req =
     (case req of
        Unprintable \<Rightarrow> (serverError ''TypeError'', [])
      | Falsy \<Rightarrow> chat_emb svc fp w None
      | Printable s \<Rightarrow> chat_emb svc fp w (Some s))"

definition postChat_kw ::
  "(prompt \<Rightarrow> string + llm_out) \<Rightarrow> world_kw \<Rightarrow> request \<Rightarrow> chat_response \<times> api_call list" where
  "postChat_kw create st req =
     (case req of
        Unprintable \<Rightarrow> (serverError ''TypeError'', [])
      | Falsy \<Rightarrow> chat_kw create st None
      | Printable s \<Rightarrow> chat_kw create st (Some s))"

definition messageText :: "request \<Rightarrow> string option" where
  \<comment> \<open>\<^verbatim>\<open>userMessage\<close>, where the conversion returns\<close>
  "messageText req =
     (case req of Unprintable \<Rightarrow> None | Falsy \<Rightarrow> Some [] | Printable s \<Rightarrow> Some s)"

section \<open>Properties stated of the program\<close>


definition entryText :: "(string \<Rightarrow> string + string) option \<Rightarrow> entry \<Rightarrow> string option" where
  \<comment> \<open>the text that a directory entry gives to the corpus: of a regular file whose name
      ends in \<^verbatim>\<open>.txt\<close> (in any letter case) its content, of one whose name ends in
      \<^verbatim>\<open>.pdf\<close> the text that the parser extracts; none of any other entry, nor of a file
      that cannot be read or parsed\<close>
  "entryText pdf f =
     (if isFile f \<noteq> Some True then None
      else if endsWith ''.txt'' (toLowerCase (ename f)) then fileData f
      else if endsWith ''.pdf'' (toLowerCase (ename f)) then
        (case pdf of
           None \<Rightarrow> None
         | Some parse \<Rightarrow>
             (case fileData f of
                None \<Rightarrow> None
              | Some data \<Rightarrow> (case parse data of Inl e \<Rightarrow> None | Inr txt \<Rightarrow> Some txt)))
      else None)"

definition entryChunks_emb :: "(string \<Rightarrow> string + string) option \<Rightarrow> entry \<Rightarrow> chunk list" where
  \<comment> \<open>the chunks of the text of an entry, under the name of the file without its ending\<close>
  "entryChunks_emb pdf f =
     (case entryText pdf f of
        None \<Rightarrow> []
      | Some txt \<Rightarrow> pushChunks_emb txt (normName (ename f)) [])"

definition entryChunks_kw :: "(string \<Rightarrow> string + string) option \<Rightarrow> entry \<Rightarrow> string list" where
  "entryChunks_kw pdf f =
     (case entryText pdf f of None \<Rightarrow> [] | Some txt \<Rightarrow> pushChunks_kw txt [])"

definition statOk :: "entry \<Rightarrow> bool" where
  \<comment> \<open>\<^verbatim>\<open>statSync\<close> answers for the entry\<close>
  "statOk f = (isFile f \<noteq> None)"

definition topByScore :: "(string \<Rightarrow> int) \<Rightarrow> nat \<Rightarrow> string list \<Rightarrow> string list" where
  \<comment> \<open>of the chunks with a strictly positive score, in descending order of score and
      otherwise in the order of the corpus, the first \<open>n\<close>\<close>
  "topByScore sc n chunks = take n (sort_key (\<lambda>c. - sc c) (filter (\<lambda>c. 0 < sc c) chunks))"



definition referenceBlock :: "string \<Rightarrow> string list \<Rightarrow> string" where
  \<comment> \<open>passages as a numbered block under a header line, in the order given, each as
      \<^verbatim>\<open>[n]\<close>, a space and the passage, with a blank line between two; nothing when there
      is no passage\<close>
  "referenceBlock header passages =
     (if passages = [] then []
      else ''\<newline>\<newline>'' @ header @ ''\<newline>'' @
           joinWith ''\<newline>\<newline>''
             (map (\<lambda>(i, p). ''['' @ showNat (i + 1) @ ''] '' @ p) (enumerate 0 passages)) @
           ''\<newline>\<newline>'')"

definition passage_emb :: "chunk \<Rightarrow> string" where
  \<comment> \<open>a passage of the embedding variant: the source in parentheses, then the text\<close>
  "passage_emb h = ''('' @ chunk_source h @ '') '' @ chunk_text h"

definition consistentOn :: "('a \<Rightarrow> 'a \<Rightarrow> int) \<Rightarrow> 'a set \<Rightarrow> bool" where
  \<comment> \<open>the comparator is a consistent ordering of the members of \<open>S\<close>: any two are
      comparable, and \<open>cmp a b \<le> 0\<close> (\<open>a\<close> not after \<open>b\<close>) is transitive\<close>
  "consistentOn cmp S =
     (\<forall>a \<in> S. \<forall>b \<in> S. \<forall>c \<in> S.
        (cmp a b \<le> 0 \<or> cmp b a \<le> 0) \<and> (cmp a b \<le> 0 \<and> cmp b c \<le> 0 \<longrightarrow> cmp a c \<le> 0))"

section \<open>Sample inputs\<close>

definition sampleChunks :: "string list" where
  "sampleChunks = [''abc'', ''fee'', ''Fee: 5'']"

definition lateChunks :: "string list" where
  \<comment> \<open>a corpus whose only chunk that matches the question \<^verbatim>\<open>fee\<close> comes last\<close>
  "lateChunks = [''abc'', ''x'', ''y'', ''fee'']"

definition sampleWorld_kw :: world_kw where
  "sampleWorld_kw =
     \<lparr>knowledgeChunks = sampleChunks, instructions = [], knowledgeDir_kw = Missing\<rparr>"

definition lateWorld_kw :: world_kw where
  "lateWorld_kw = \<lparr>knowledgeChunks = lateChunks, instructions = [], knowledgeDir_kw = Missing\<rparr>"

definition otherWorld_kw :: world_kw where
  "otherWorld_kw =
     \<lparr>knowledgeChunks = sampleChunks, instructions = ''Be brief.'',
      knowledgeDir_kw = Listing []\<rparr>"

definition toyVector :: "string \<Rightarrow> real list" where
  \<comment> \<open>a stand-in for the embedding of a text: one axis for the texts that start with the
      letter o, another for the rest\<close>
  "toyVector t = (if startsWith ''o'' t then [1, 0] else [0, 1])"

definition toyEmbed :: "string list \<Rightarrow> string + real list list" where
  "toyEmbed batch = Inr (map toyVector batch)"

definition realArith :: "real arith" where
  \<comment> \<open>the arithmetic of the reals, where no operation gives NaN, for the sample runs\<close>
  "realArith =
     \<lparr>fadd = (+), fsub = (-), fmul = (*), fdiv = (/), fsqrt = sqrt, fzero = 0,
      feps = 1 / 10 ^ 8, fundefined = 0,
      fsign = (\<lambda>x. if x < 0 then - 1 else if 0 < x then 1 else 0)\<rparr>"

definition silentOut :: llm_out where
  "silentOut = \<lparr>out_output_text = Some [], out_output = None, out_response_output_text = None\<rparr>"

definition silentModel :: "prompt \<Rightarrow> string + llm_out" where
  \<comment> \<open>a stand-in for the language model that answers with an empty text\<close>
  "silentModel p = Inr silentOut"

definition toyServices :: "real services" where
  "toyServices =
     \<lparr>embeddings_create = toyEmbed, responses_create = silentModel, pdfParse = None\<rparr>"

definition sampleDir :: "string \<Rightarrow> directory" where
  \<comment> \<open>a knowledge directory with one text file of the given content, a subdirectory and a
      file of another kind\<close>
  "sampleDir content =
     Listing
       [\<lparr>ename = ''a.txt'', isFile = Some True, fileData = Some content\<rparr>,
        \<lparr>ename = ''sub'', isFile = Some False, fileData = None\<rparr>,
        \<lparr>ename = ''notes.md'', isFile = Some True, fileData = Some ''skip me''\<rparr>]"

definition freshWorld :: "real world" where
  "freshWorld =
     \<lparr>knowledge = [\<lparr>chunk_text = ''stale'', chunk_source = ''x''\<rparr>], embeddings = [[9]],
      knowledgeDir = sampleDir ''old'', indexFile = NoIndex, indexWritable = True\<rparr>"

definition editedWorld :: "real world" where
  \<comment> \<open>the world after \<^verbatim>\<open>loadKnowledge\<close> has run on \<open>freshWorld\<close> and \<^verbatim>\<open>a.txt\<close> has then been
      rewritten\<close>
  "editedWorld =
     (fst (snd (loadKnowledge_emb toyServices freshWorld)))\<lparr>knowledgeDir := sampleDir ''newer''\<rparr>"

definition fileWorld_kw :: world_kw where
  "fileWorld_kw =
     \<lparr>knowledgeChunks = [''stale''], instructions = [], knowledgeDir_kw = sampleDir ''old''\<rparr>"

definition answeringModel :: "prompt \<Rightarrow> string + llm_out" where
  \<comment> \<open>a stand-in for the language model that answers every prompt with \<^verbatim>\<open>Yes.\<close>\<close>
  "answeringModel p =
     Inr \<lparr>out_output_text = Some ''Yes.'', out_output = None, out_response_output_text = None\<rparr>"

definition failingModel :: "prompt \<Rightarrow> string + llm_out" where
  \<comment> \<open>a stand-in for the language model whose call throws\<close>
  "failingModel p = Inl ''boom''"

definition answeringServices :: "real services" where
  "answeringServices = toyServices\<lparr>responses_create := answeringModel\<rparr>"

definition emptyWorld_kw :: world_kw where
  "emptyWorld_kw = \<lparr>knowledgeChunks = [], instructions = [], knowledgeDir_kw = Missing\<rparr>"

definition emptyWorld :: "real world" where
  "emptyWorld =
     \<lparr>knowledge = [], embeddings = [], knowledgeDir = Missing, indexFile = NoIndex,
      indexWritable = True\<rparr>"

definition rankWorld :: "real world" where
  \<comment> \<open>two chunks with their vectors in memory\<close>
  "rankWorld =
     \<lparr>knowledge = [\<lparr>chunk_text = ''newer'', chunk_source = ''b''\<rparr>,
                   \<lparr>chunk_text = ''old'', chunk_source = ''a''\<rparr>],
      embeddings = [[0, 1], [1, 0]], knowledgeDir = Missing, indexFile = NoIndex,
      indexWritable = True\<rparr>"

definition danglingDir :: directory where
  \<comment> \<open>a knowledge directory that lists a dangling link before a text file\<close>
  "danglingDir =
     Listing
       [\<lparr>ename = ''gone'', isFile = None, fileData = None\<rparr>,
        \<lparr>ename = ''a.txt'', isFile = Some True, fileData = Some ''old''\<rparr>]"

definition unreadableDir :: directory where
  \<comment> \<open>the same with a text file that cannot be read in place of the dangling link\<close>
  "unreadableDir =
     Listing
       [\<lparr>ename = ''gone.txt'', isFile = Some True, fileData = None\<rparr>,
        \<lparr>ename = ''a.txt'', isFile = Some True, fileData = Some ''old''\<rparr>]"

definition downEmbed :: "string list \<Rightarrow> string + real list list" where
  \<comment> \<open>a stand-in for the embedding service whose call throws\<close>
  "downEmbed batch = Inl ''down''"

definition downServices :: "real services" where
  "downServices = answeringServices\<lparr>embeddings_create := downEmbed\<rparr>"

definition failingServices :: "real services" where
  "failingServices = toyServices\<lparr>responses_create := failingModel\<rparr>"

definition lopsidedWorld :: "real world" where
  \<comment> \<open>more vectors than chunks in memory\<close>
  "lopsidedWorld =
     \<lparr>knowledge = [\<lparr>chunk_text = ''old'', chunk_source = ''a''\<rparr>],
      embeddings = [[1, 0], [0, 1]], knowledgeDir = Missing, indexFile = NoIndex,
      indexWritable = True\<rparr>"

section \<open>Chunks are bounded and cover the text\<close>

declare slices_emb.simps [simp del] slices_kw.simps [simp del]



















lemma pushChunks_emb_eq:
  "pushChunks_emb txt src kn =
     kn @ map (\<lambda>t. \<lparr>chunk_text = t, chunk_source = src\<rparr>)
            (concat (map blockChunks_emb (blocks_emb txt)))"
proof (cases "txt = []")
  case True
  have "splitBlank [] = [[]]" by simp
  then have "blocks_emb [] = []" by (simp add: blocks_emb_def trim_def)
  with True show ?thesis by (simp add: pushChunks_emb_def)
next
  case False
  then show ?thesis by (simp add: pushChunks_emb_def)
qed

lemma pushChunks_kw_eq:
  "pushChunks_kw txt kc = kc @ concat (map partChunks_kw (parts_kw txt))"
proof (cases "txt = []")
  case True
  have "parts_kw [] = []" by (simp add: parts_kw_def trim_def)
  with True show ?thesis by (simp add: pushChunks_kw_def)
next
  case False
  then show ?thesis by (simp add: pushChunks_kw_def)
qed




lemma splitBlank_plain: "NL \<notin> set s \<Longrightarrow> splitBlank s = [s]"
  by (induction s) auto













section \<open>The keyword retriever ranks the corpus\<close>


lemma length_insertBy: "length (insertBy cmp x ys) = Suc (length ys)"
  by (induction ys) auto


lemma length_jsSort: "length (jsSort cmp xs) = length xs"
  by (induction xs) (simp_all add: jsSort_def length_insertBy)



lemma sorted_wrt_take: "sorted_wrt P xs \<Longrightarrow> sorted_wrt P (take n xs)"
  by (metis append_take_drop_id sorted_wrt_append)


lemma consistent_by_key:
  "consistentOn (\<lambda>a b. snd b - snd a) (S :: ('a \<times> int) set)"
  unfolding consistentOn_def by auto

lemma scored_snd: "x \<in> set (scored question chunks) \<Longrightarrow>
    fst x \<in> set chunks \<and> snd x = score (norm question) (fst x)"
  by (auto simp: scored_def)


lemma insertBy_key:
  "insertBy (\<lambda>a b. snd b - snd a) x ys = insort_key (\<lambda>x. - snd x) x (ys :: ('a \<times> int) list)"
  by (induction ys) auto

lemma jsSort_key:
  "jsSort (\<lambda>a b. snd b - snd a) xs = sort_key (\<lambda>x. - snd x) (xs :: ('a \<times> int) list)"
  by (induction xs) (simp_all add: jsSort_def insertBy_key)

lemma insort_key_map:
  "insort_key f (g x) (map g ys) = map g (insort_key (\<lambda>y. f (g y)) x ys)"
  by (induction ys) auto

lemma sort_key_map_inner: "sort_key f (map g xs) = map g (sort_key (\<lambda>y. f (g y)) xs)"
  by (induction xs) (simp_all add: insort_key_map)

lemma filter_take_descending:
  "sorted_wrt (\<lambda>a b. snd b \<le> snd a) xs \<Longrightarrow>
     filter (\<lambda>x. 0 < snd x) (take n xs) = take n (filter (\<lambda>x. 0 < snd x) (xs :: ('a \<times> int) list))"
proof (induction xs arbitrary: n)
  case Nil
  show ?case by simp
next
  case (Cons x xs)
  show ?case
  proof (cases n)
    case 0
    then show ?thesis by simp
  next
    case (Suc m)
    show ?thesis
    proof (cases "0 < snd x")
      case True
      with Suc Cons show ?thesis by simp
    next
      case False
      with Cons.prems have "\<forall>y \<in> set xs. \<not> 0 < snd y" by auto
      then have "filter (\<lambda>x. 0 < snd x) xs = []" "filter (\<lambda>x. 0 < snd x) (take m xs) = []"
        by (auto simp: filter_empty_conv dest: in_set_takeD)
      with False Suc show ?thesis by simp
    qed
  qed
qed

lemma sliceCount: "jsSlice0 xs e = take (if e < 0 then nat (int (length xs) + e) else nat e) xs"
  by (simp add: jsSlice0_def)

lemma findRelevantChunks_top:
  "findRelevantChunks w question max' =
     topByScore (score (norm question))
       (if max' < 0 then nat (int (length (knowledgeChunks w)) + max') else nat max')
       (knowledgeChunks w)"
proof (cases "knowledgeChunks w = []")
  case True
  then show ?thesis by (simp add: findRelevantChunks_def topByScore_def)
next
  case False
  let ?sc = "score (norm question)"
  let ?kc = "knowledgeChunks w"
  let ?pair = "\<lambda>c. (c, ?sc c)"
  let ?n = "if max' < 0 then nat (int (length ?kc) + max') else nat max'"
  let ?sorted = "sort_key (\<lambda>x. - snd x) (map ?pair ?kc)"
  have len: "length (jsSort (\<lambda>a b. snd b - snd a) (scored question ?kc)) = length ?kc"
    by (simp add: length_jsSort scored_def)
  have "sorted (map (\<lambda>x. - snd x) ?sorted)" by (rule sorted_sort_key)
  then have desc: "sorted_wrt (\<lambda>a b. snd b \<le> snd a) ?sorted"
    by (simp add: sorted_map)
  have "findRelevantChunks w question max' =
      map fst (filter (\<lambda>x. 0 < snd x) (take ?n ?sorted))"
    using False len
    by (simp add: findRelevantChunks_def sliceCount jsSort_key scored_def)
  also have "\<dots> = map fst (take ?n (filter (\<lambda>x. 0 < snd x) ?sorted))"
    by (simp only: filter_take_descending [OF desc])
  also have "filter (\<lambda>x. 0 < snd x) ?sorted =
      sort_key (\<lambda>x. - snd x) (filter (\<lambda>x. 0 < snd x) (map ?pair ?kc))"
    by (rule filter_sort)
  also have "filter (\<lambda>x. 0 < snd x) (map ?pair ?kc) = map ?pair (filter (\<lambda>c. 0 < ?sc c) ?kc)"
    by (simp add: filter_map comp_def)
  also have "sort_key (\<lambda>x. - snd x) (map ?pair (filter (\<lambda>c. 0 < ?sc c) ?kc)) =
      map ?pair (sort_key (\<lambda>c. - ?sc c) (filter (\<lambda>c. 0 < ?sc c) ?kc))"
    by (simp add: sort_key_map_inner)
  also have "map fst (take ?n (map ?pair (sort_key (\<lambda>c. - ?sc c) (filter (\<lambda>c. 0 < ?sc c) ?kc)))) =
      take ?n (sort_key (\<lambda>c. - ?sc c) (filter (\<lambda>c. 0 < ?sc c) ?kc))"
    by (simp add: take_map comp_def)
  finally show ?thesis by (simp add: topByScore_def)
qed

text \<open>
  C1. For every question and chunk list, \<^verbatim>\<open>findRelevantChunks(question, max)\<close> scores every
  chunk of \<^verbatim>\<open>knowledgeChunks\<close> in one pass of \<^verbatim>\<open>map\<close> and returns, of all the chunks of the
  corpus with a strictly positive score, those that come first when they are put in
  descending order of score (chunks of equal score in the order of the corpus), as many as
  \<^verbatim>\<open>slice(0, max)\<close> keeps. For a count \<open>max \<ge> 0\<close> these are at most \<open>max\<close> chunks, exactly \<open>max\<close>
  or all the chunks with a positive score when there are fewer, each a member of
  \<^verbatim>\<open>knowledgeChunks\<close> with a strictly positive score, in order of non-increasing score, and a
  chunk with a positive score is left out only when \<open>max\<close> chunks that score at least as
  high are returned. (A negative \<open>max\<close> makes \<^verbatim>\<open>slice\<close> count from the end of the array, see
  \<open>findRelevantChunks_negative_max\<close> below; the route passes 5.)
\<close>

theorem findRelevantChunks_ranked:
  "map fst (scored question (knowledgeChunks w)) = knowledgeChunks w
   \<and> findRelevantChunks w question max' =
       topByScore (score (norm question))
         (if max' < 0 then nat (int (length (knowledgeChunks w)) + max') else nat max')
         (knowledgeChunks w)
   \<and> (0 \<le> max' \<longrightarrow>
        int (length (findRelevantChunks w question max')) \<le> max'
      \<and> length (findRelevantChunks w question max') =
          min (nat max') (length (filter (\<lambda>c. 0 < score (norm question) c) (knowledgeChunks w)))
      \<and> (\<forall>c \<in> set (findRelevantChunks w question max').
            c \<in> set (knowledgeChunks w) \<and> 0 < score (norm question) c)
      \<and> sorted_wrt (\<lambda>a b. score (norm question) b \<le> score (norm question) a)
            (findRelevantChunks w question max')
      \<and> (\<forall>c \<in> set (knowledgeChunks w). 0 < score (norm question) c \<longrightarrow>
            c \<in> set (findRelevantChunks w question max')
            \<or> (length (findRelevantChunks w question max') = nat max'
               \<and> (\<forall>r \<in> set (findRelevantChunks w question max').
                     score (norm question) c \<le> score (norm question) r))))"
proof (intro conjI impI)
  show "map fst (scored question (knowledgeChunks w)) = knowledgeChunks w"
    by (simp add: scored_def comp_def)
  show "findRelevantChunks w question max' =
       topByScore (score (norm question))
         (if max' < 0 then nat (int (length (knowledgeChunks w)) + max') else nat max')
         (knowledgeChunks w)"
    by (rule findRelevantChunks_top)
next
  assume m: "0 \<le> max'"
  let ?sc = "score (norm question)"
  let ?pos = "filter (\<lambda>c. 0 < ?sc c) (knowledgeChunks w)"
  let ?sorted = "sort_key (\<lambda>c. - ?sc c) ?pos"
  let ?R = "findRelevantChunks w question max'"
  have R: "?R = take (nat max') ?sorted"
    using m by (simp add: findRelevantChunks_top topByScore_def)
  have desc: "sorted_wrt (\<lambda>a b. ?sc b \<le> ?sc a) ?sorted"
    using sorted_sort_key [of "\<lambda>c. - ?sc c" ?pos] by (simp add: sorted_map)
  show len: "length ?R = min (nat max') (length ?pos)"
    unfolding R by (simp add: min.commute)
  then show "int (length ?R) \<le> max'" using m by simp
  show "\<forall>c \<in> set ?R. c \<in> set (knowledgeChunks w) \<and> 0 < ?sc c"
  proof
    fix c assume "c \<in> set ?R"
    then have "c \<in> set ?sorted" unfolding R by (rule in_set_takeD)
    then show "c \<in> set (knowledgeChunks w) \<and> 0 < ?sc c" by simp
  qed
  show "sorted_wrt (\<lambda>a b. ?sc b \<le> ?sc a) ?R"
    unfolding R using desc by (rule sorted_wrt_take)
  show "\<forall>c \<in> set (knowledgeChunks w). 0 < ?sc c \<longrightarrow>
            c \<in> set ?R \<or> (length ?R = nat max' \<and> (\<forall>r \<in> set ?R. ?sc c \<le> ?sc r))"
  proof (intro ballI impI)
    fix c assume "c \<in> set (knowledgeChunks w)" "0 < ?sc c"
    then have "c \<in> set (take (nat max') ?sorted @ drop (nat max') ?sorted)" by simp
    then consider "c \<in> set (take (nat max') ?sorted)" | "c \<in> set (drop (nat max') ?sorted)"
      unfolding set_append by blast
    then show "c \<in> set ?R \<or> (length ?R = nat max' \<and> (\<forall>r \<in> set ?R. ?sc c \<le> ?sc r))"
    proof cases
      case 1
      then show ?thesis unfolding R by simp
    next
      case 2
      then have "drop (nat max') ?sorted \<noteq> []" by auto
      then have full: "length ?R = nat max'" unfolding R by simp
      from desc have "sorted_wrt (\<lambda>a b. ?sc b \<le> ?sc a)
          (take (nat max') ?sorted @ drop (nat max') ?sorted)" by simp
      with 2 have "\<forall>r \<in> set (take (nat max') ?sorted). ?sc c \<le> ?sc r"
        unfolding sorted_wrt_append by blast
      with full show ?thesis unfolding R by blast
    qed
  qed
qed





lemma sample_scored:
  "scored ''fee 7?'' sampleChunks = [(''abc'', 0), (''fee'', 1), (''Fee: 5'', 3)]"
  unfolding sampleChunks_def by code_simp

lemma sample_sorted:
  "jsSort (\<lambda>a b. snd b - snd a) [(''abc'', 0::int), (''fee'', 1), (''Fee: 5'', 3)] =
     [(''Fee: 5'', 3), (''fee'', 1), (''abc'', 0)]"
  by (simp add: jsSort_def)

lemma sample_hits:
  "findRelevantChunks sampleWorld_kw ''fee 7?'' 5 = [''Fee: 5'', ''fee'']"
  "findRelevantChunks otherWorld_kw ''fee 7?'' 5 = [''Fee: 5'', ''fee'']"
  by (simp_all add: findRelevantChunks_def sampleWorld_kw_def otherWorld_kw_def sample_scored
      sample_sorted jsSlice0_def) (simp_all add: sampleChunks_def)

lemma findRelevantChunks_negative_max:
  "findRelevantChunks sampleWorld_kw ''fee 7?'' (- 1) = [''Fee: 5'', ''fee'']"
  by (simp add: findRelevantChunks_def sampleWorld_kw_def sample_scored sample_sorted jsSlice0_def)
     (simp add: sampleChunks_def)



lemma late_scored:
  "scored ''fee'' lateChunks = [(''abc'', 0), (''x'', 0), (''y'', 0), (''fee'', 1)]"
  unfolding lateChunks_def by code_simp

lemma sample_scores:
  "score (norm ''fee 7?'') ''abc'' = 0" "score (norm ''fee 7?'') ''fee'' = 1"
  "score (norm ''fee 7?'') ''Fee: 5'' = 3" "score (norm ''fee'') ''fee'' = 1"
  using sample_scored late_scored by (simp_all add: scored_def sampleChunks_def lateChunks_def)

theorem findRelevantChunks_ranked_witness:
  "(0::int) \<le> 5
   \<and> findRelevantChunks sampleWorld_kw ''fee 7?'' 5 = [''Fee: 5'', ''fee'']
   \<and> topByScore (score (norm ''fee 7?'')) 5 sampleChunks = [''Fee: 5'', ''fee'']
   \<and> length (filter (\<lambda>c. 0 < score (norm ''fee 7?'') c) sampleChunks) = 2
   \<and> ''Fee: 5'' \<in> set (knowledgeChunks sampleWorld_kw)
   \<and> 0 < score (norm ''fee 7?'') ''Fee: 5''
   \<and> score (norm ''fee 7?'') ''fee'' \<le> score (norm ''fee 7?'') ''Fee: 5''
   \<and> ''fee'' \<in> set (knowledgeChunks lateWorld_kw)
   \<and> 0 < score (norm ''fee'') ''fee''
   \<and> ''fee'' \<in> set (findRelevantChunks lateWorld_kw ''fee'' 5)"
proof -
  have h: "(0::int) \<le> 5" by simp
  have kc: "knowledgeChunks sampleWorld_kw = sampleChunks" "knowledgeChunks lateWorld_kw = lateChunks"
    by (simp_all add: sampleWorld_kw_def lateWorld_kw_def)
  note T = findRelevantChunks_ranked [of "''fee 7?''" sampleWorld_kw 5]
  note L = findRelevantChunks_ranked [of "''fee''" lateWorld_kw 5]
  from T have "findRelevantChunks sampleWorld_kw ''fee 7?'' 5 =
      topByScore (score (norm ''fee 7?'')) (nat 5) (knowledgeChunks sampleWorld_kw)" by simp
  then have t: "topByScore (score (norm ''fee 7?'')) 5 sampleChunks = [''Fee: 5'', ''fee'']"
    unfolding sample_hits kc by simp
  from T h have "length (findRelevantChunks sampleWorld_kw ''fee 7?'' 5) =
      min (nat 5) (length (filter (\<lambda>c. 0 < score (norm ''fee 7?'') c) (knowledgeChunks sampleWorld_kw)))"
    by blast
  then have n: "length (filter (\<lambda>c. 0 < score (norm ''fee 7?'') c) sampleChunks) = 2"
    unfolding sample_hits kc by (simp add: min_def split: if_splits)
  from T h have "\<forall>c \<in> set (findRelevantChunks sampleWorld_kw ''fee 7?'' 5).
      c \<in> set (knowledgeChunks sampleWorld_kw) \<and> 0 < score (norm ''fee 7?'') c" by blast
  then have a: "''Fee: 5'' \<in> set (knowledgeChunks sampleWorld_kw)"
    "0 < score (norm ''fee 7?'') ''Fee: 5''"
    unfolding sample_hits by simp_all
  from T h have "sorted_wrt (\<lambda>a b. score (norm ''fee 7?'') b \<le> score (norm ''fee 7?'') a)
      (findRelevantChunks sampleWorld_kw ''fee 7?'' 5)" by blast
  then have b: "score (norm ''fee 7?'') ''fee'' \<le> score (norm ''fee 7?'') ''Fee: 5''"
    unfolding sample_hits by simp
  have m: "''fee'' \<in> set (knowledgeChunks lateWorld_kw)" "0 < score (norm ''fee'') ''fee''"
    by (simp_all add: kc lateChunks_def sample_scores)
  from L h have "length (findRelevantChunks lateWorld_kw ''fee'' 5) =
      min (nat 5) (length (filter (\<lambda>c. 0 < score (norm ''fee'') c) (knowledgeChunks lateWorld_kw)))"
    by blast
  moreover have "length (filter (\<lambda>c. 0 < score (norm ''fee'') c) (knowledgeChunks lateWorld_kw)) \<le> 4"
    using length_filter_le [of _ lateChunks] by (simp add: kc lateChunks_def)
  ultimately have short: "length (findRelevantChunks lateWorld_kw ''fee'' 5) \<noteq> nat 5" by simp
  from L h m have "''fee'' \<in> set (findRelevantChunks lateWorld_kw ''fee'' 5)
      \<or> length (findRelevantChunks lateWorld_kw ''fee'' 5) = nat 5" by blast
  with short have c: "''fee'' \<in> set (findRelevantChunks lateWorld_kw ''fee'' 5)" by blast
  from h a b m c t n sample_hits(1) show ?thesis by blast
qed


section \<open>Loading rebuilds the corpus from the directory\<close>

lemma buildOrLoadEmbeddings_knowledge:
  "knowledge (fst (snd (buildOrLoadEmbeddings svc w))) = knowledge w"
  by (simp add: buildOrLoadEmbeddings_def split: option.split prod.split sum.split index_file.split)


lemma pushChunks_emb_append: "pushChunks_emb txt src kn = kn @ pushChunks_emb txt src []"
  by (simp add: pushChunks_emb_eq)

lemma pushChunks_kw_append: "pushChunks_kw txt kc = kc @ pushChunks_kw txt []"
  by (simp add: pushChunks_kw_eq)

lemma loadFiles_emb_step:
  "loadFiles_emb pdf (f # fs) kn =
     (if statOk f then loadFiles_emb pdf fs (kn @ entryChunks_emb pdf f)
      else (Inl ''statSync'', kn))"
  using pushChunks_emb_append [of _ "normName (ename f)" kn]
  by (cases "isFile f")
     (auto simp: statOk_def entryChunks_emb_def entryText_def Let_def
           split: option.split sum.split)

lemma loadFiles_kw_step:
  "loadFiles_kw pdf (f # fs) kc =
     (if statOk f then loadFiles_kw pdf fs (kc @ entryChunks_kw pdf f)
      else (Inl ''statSync'', kc))"
  using pushChunks_kw_append [of _ kc]
  by (cases "isFile f")
     (auto simp: statOk_def entryChunks_kw_def entryText_def Let_def
           split: option.split sum.split)

lemma loadFiles_emb_contributions:
  "loadFiles_emb pdf fs kn =
     (if list_all statOk fs then Inr () else Inl ''statSync'',
      kn @ concat (map (entryChunks_emb pdf) (takeWhile statOk fs)))"
proof (induction fs arbitrary: kn)
  case Nil
  show ?case by simp
next
  case (Cons f fs)
  show ?case unfolding loadFiles_emb_step by (simp add: Cons.IH)
qed

lemma loadFiles_kw_contributions:
  "loadFiles_kw pdf fs kc =
     (if list_all statOk fs then Inr () else Inl ''statSync'',
      kc @ concat (map (entryChunks_kw pdf) (takeWhile statOk fs)))"
proof (induction fs arbitrary: kc)
  case Nil
  show ?case by simp
next
  case (Cons f fs)
  show ?case unfolding loadFiles_kw_step by (simp add: Cons.IH)
qed

lemma loadKnowledge_emb_corpus:
  "knowledge (fst (snd (loadKnowledge_emb svc w))) =
     (case knowledgeDir w of
        Listing files \<Rightarrow>
          concat (map (entryChunks_emb (pdfParse svc))
                   (takeWhile statOk (filter (\<lambda>f. \<not> startsWith ''.'' (ename f)) files)))
      | _ \<Rightarrow> [])"
  by (simp add: loadKnowledge_emb_def Let_def loadFiles_emb_contributions
      buildOrLoadEmbeddings_knowledge split: directory.split)

lemma loadKnowledge_kw_corpus:
  "loadKnowledge_kw pdf w =
     (case knowledgeDir_kw w of
        Missing \<Rightarrow> (Inr (), w\<lparr>knowledgeChunks := []\<rparr>)
      | Unlistable \<Rightarrow> (Inl ''readdirSync'', w\<lparr>knowledgeChunks := []\<rparr>)
      | Listing files \<Rightarrow>
          (if list_all statOk files then Inr () else Inl ''statSync'',
           w\<lparr>knowledgeChunks := concat (map (entryChunks_kw pdf) (takeWhile statOk files))\<rparr>))"
  by (simp add: loadKnowledge_kw_def Let_def loadFiles_kw_contributions split: directory.split)

lemma entryChunks_other:
  "isFile f = Some False \<Longrightarrow> entryChunks_emb pdf f = [] \<and> entryChunks_kw pdf f = []"
  "isFile f = Some True \<Longrightarrow> \<not> endsWith ''.txt'' (toLowerCase (ename f)) \<Longrightarrow>
     \<not> endsWith ''.pdf'' (toLowerCase (ename f)) \<Longrightarrow>
     entryChunks_emb pdf f = [] \<and> entryChunks_kw pdf f = []"
  by (simp_all add: entryChunks_emb_def entryChunks_kw_def entryText_def)

lemma sample_names:
  "endsWith ''.txt'' (toLowerCase ''a.txt'')" "normName ''a.txt'' = ''a''"
  "\<not> endsWith ''.txt'' (toLowerCase ''notes.md'')" "\<not> endsWith ''.pdf'' (toLowerCase ''notes.md'')"
  "\<not> startsWith ''.'' ''a.txt''" "\<not> startsWith ''.'' ''sub''" "\<not> startsWith ''.'' ''notes.md''"
  by code_simp+

lemma sample_push:
  "pushChunks_emb ''old'' ''a'' [] = [\<lparr>chunk_text = ''old'', chunk_source = ''a''\<rparr>]"
  "pushChunks_emb ''newer'' ''a'' [] = [\<lparr>chunk_text = ''newer'', chunk_source = ''a''\<rparr>]"
  "pushChunks_kw ''old'' [] = [''old'']"
  by code_simp+


text \<open>
  C4. \<^verbatim>\<open>loadKnowledge\<close> first empties the corpus and then rebuilds it from the directory.
  For every directory whose entries all answer \<^verbatim>\<open>statSync\<close>, by \<open>loadKnowledge_emb_corpus\<close>
  and \<open>loadKnowledge_kw_corpus\<close> above the corpus after the run is, whatever was loaded
  before, the chunks of the texts of the regular files whose names end in \<^verbatim>\<open>.txt\<close> or
  \<^verbatim>\<open>.pdf\<close>, file after file in the order of the directory, and by \<open>entryChunks_other\<close>
  every other entry gives nothing. An entry for which \<^verbatim>\<open>statSync\<close> throws, such as a dangling
  link, is not skipped: the call is outside the \<^verbatim>\<open>try\<close> that turns a file that cannot be
  read into one that is skipped, so the run ends there and the text file listed after the
  link is not loaded. With a file that cannot be read in place of the link, the same text
  file is loaded.
\<close>

theorem loadKnowledge_aborts_on_failed_stat:
  "fst (loadKnowledge_kw None (fileWorld_kw\<lparr>knowledgeDir_kw := danglingDir\<rparr>)) = Inl ''statSync''
   \<and> knowledgeChunks (snd (loadKnowledge_kw None (fileWorld_kw\<lparr>knowledgeDir_kw := danglingDir\<rparr>))) = []
   \<and> fst (loadKnowledge_kw None (fileWorld_kw\<lparr>knowledgeDir_kw := unreadableDir\<rparr>)) = Inr ()
   \<and> knowledgeChunks (snd (loadKnowledge_kw None (fileWorld_kw\<lparr>knowledgeDir_kw := unreadableDir\<rparr>))) =
       [''old'']
   \<and> fst (loadKnowledge_emb toyServices (freshWorld\<lparr>knowledgeDir := danglingDir\<rparr>)) = Inl ''statSync''
   \<and> knowledge (fst (snd (loadKnowledge_emb toyServices (freshWorld\<lparr>knowledgeDir := danglingDir\<rparr>)))) = []
   \<and> knowledge (fst (snd (loadKnowledge_emb toyServices (freshWorld\<lparr>knowledgeDir := unreadableDir\<rparr>)))) =
       [\<lparr>chunk_text = ''old'', chunk_source = ''a''\<rparr>]"
proof -
  have n: "endsWith ''.txt'' (toLowerCase ''gone.txt'')" "\<not> startsWith ''.'' ''gone''"
    "\<not> startsWith ''.'' ''gone.txt''"
    by code_simp+
  have k: "loadKnowledge_kw None (fileWorld_kw\<lparr>knowledgeDir_kw := danglingDir\<rparr>) =
      (Inl ''statSync'', fileWorld_kw\<lparr>knowledgeChunks := [], knowledgeDir_kw := danglingDir\<rparr>)"
    by (simp add: loadKnowledge_kw_def danglingDir_def)
  have u: "loadKnowledge_kw None (fileWorld_kw\<lparr>knowledgeDir_kw := unreadableDir\<rparr>) =
      (Inr (), fileWorld_kw\<lparr>knowledgeChunks := [''old''], knowledgeDir_kw := unreadableDir\<rparr>)"
    by (simp add: loadKnowledge_kw_def unreadableDir_def n sample_names sample_push)
  have e: "loadKnowledge_emb toyServices (freshWorld\<lparr>knowledgeDir := danglingDir\<rparr>) =
      (Inl ''statSync'',
       freshWorld\<lparr>knowledge := [], embeddings := [], knowledgeDir := danglingDir\<rparr>, [])"
    by (simp add: loadKnowledge_emb_def danglingDir_def n)
  have v: "knowledge (fst (snd (loadKnowledge_emb toyServices
      (freshWorld\<lparr>knowledgeDir := unreadableDir\<rparr>)))) =
       [\<lparr>chunk_text = ''old'', chunk_source = ''a''\<rparr>]"
    by (simp add: loadKnowledge_emb_corpus unreadableDir_def n sample_names statOk_def
        entryChunks_emb_def entryText_def sample_push toyServices_def)
  show ?thesis unfolding k u e v by simp
qed

declare embedLoop.simps [simp del]

lemma embedLoop_contract:
  "\<forall>batch data. embeddings_create svc batch = Inr data \<longrightarrow> data = map emb batch \<Longrightarrow>
   embedLoop svc texts i all = (Inr r, cs) \<Longrightarrow> r = all @ map emb (drop i texts)"
proof (induction svc texts i all arbitrary: r cs rule: embedLoop.induct)
  case (1 svc texts i all)
  note contract = "1.prems"(1) and run = "1.prems"(2)
  show ?case
  proof (cases "i < length texts")
    case False
    with run show ?thesis by (simp add: embedLoop.simps [of svc texts i all])
  next
    case True
    let ?batch = "take BATCH (drop i texts)"
    from run True obtain data where d: "embeddings_create svc ?batch = Inr data"
      by (auto simp: embedLoop.simps [of svc texts i all] Let_def split: sum.splits)
    with contract have dm: "data = map emb ?batch" by blast
    from run True d obtain cs' where
      "embedLoop svc texts (i + BATCH) (all @ data) = (Inr r, cs')"
      by (auto simp: embedLoop.simps [of svc texts i all] Let_def split: prod.splits)
    from "1.IH" [OF True refl d contract this]
    have "r = (all @ data) @ map emb (drop (i + BATCH) texts)" .
    moreover have "?batch @ drop (i + BATCH) texts = drop i texts"
      by (metis add.commute append_take_drop_id drop_drop)
    then have "map emb ?batch @ map emb (drop (i + BATCH) texts) = map emb (drop i texts)"
      by (metis map_append)
    ultimately show ?thesis using dm by simp
  qed
qed

lemma buildOrLoad_cached:
  "indexFile w = Index es \<Longrightarrow> length es = length (knowledge w) \<Longrightarrow>
     buildOrLoadEmbeddings svc w = (Inr (), w\<lparr>embeddings := es\<rparr>, [])"
  by (simp add: buildOrLoadEmbeddings_def)

lemma buildOrLoad_fresh:
  "\<not> (\<exists>es. indexFile w = Index es \<and> length es = length (knowledge w)) \<Longrightarrow>
     buildOrLoadEmbeddings svc w =
       (case embedLoop svc (map chunk_text (knowledge w)) 0 [] of
          (Inl e, cs) \<Rightarrow> (Inl e, w, cs)
        | (Inr all, cs) \<Rightarrow>
            (Inr (),
             w\<lparr>embeddings := all,
               indexFile := (if indexWritable w then Index all else indexFile w)\<rparr>,
             cs))"
  by (cases "indexFile w") (simp_all add: buildOrLoadEmbeddings_def)

lemma loadKnowledge_emb_reset:
  "loadKnowledge_emb svc (w\<lparr>knowledge := kn0, embeddings := em0\<rparr>) = loadKnowledge_emb svc w"
  by (simp add: loadKnowledge_emb_def)

text \<open>
  C3, amended. After every completed run of \<^verbatim>\<open>loadKnowledge\<close>, also one started by
  \<^verbatim>\<open>POST /reload\<close>, there is one stored vector for each chunk, and neither the corpus nor the
  vectors that were in memory before the run influence the result. When \<^verbatim>\<open>.index.json\<close>
  holds an array of exactly as many entries as the corpus now has chunks, the stored
  vectors are that array; otherwise \<^verbatim>\<open>embeddings[i]\<close> is the embedding of the current text of
  \<^verbatim>\<open>knowledge[i]\<close>, for a service that answers a batch with the embeddings of its texts in
  order.
\<close>

theorem loadKnowledge_emb_embeddings:
  assumes run: "loadKnowledge_emb svc w = (Inr (), w', cs)"
    and contract: "\<forall>batch data. embeddings_create svc batch = Inr data \<longrightarrow> data = map emb batch"
  shows "length (embeddings w') = length (knowledge w')
    \<and> (if \<exists>es. indexFile w = Index es \<and> length es = length (knowledge w')
        then indexFile w = Index (embeddings w')
        else embeddings w' = map (\<lambda>c. emb (chunk_text c)) (knowledge w'))
    \<and> loadKnowledge_emb svc (w\<lparr>knowledge := kn0, embeddings := em0\<rparr>) = (Inr (), w', cs)
    \<and> reload_emb svc w = (ReloadOk (length (knowledge w')), w', cs)"
proof -
  have reset: "loadKnowledge_emb svc (w\<lparr>knowledge := kn0, embeddings := em0\<rparr>) = (Inr (), w', cs)"
    using run by (simp add: loadKnowledge_emb_reset)
  have rel: "reload_emb svc w = (ReloadOk (length (knowledge w')), w', cs)"
    using run by (simp add: reload_emb_def)
  let ?w0 = "w\<lparr>knowledge := [], embeddings := []\<rparr>"
  have main: "length (embeddings w') = length (knowledge w')
    \<and> (if \<exists>es. indexFile w = Index es \<and> length es = length (knowledge w')
        then indexFile w = Index (embeddings w')
        else embeddings w' = map (\<lambda>c. emb (chunk_text c)) (knowledge w'))"
  proof (cases "knowledgeDir w")
    case Missing
    with run have "w' = ?w0" by (simp add: loadKnowledge_emb_def)
    then show ?thesis by auto
  next
    case Unlistable
    with run show ?thesis by (simp add: loadKnowledge_emb_def)
  next
    case (Listing files)
    obtain r kn where lf: "loadFiles_emb (pdfParse svc)
        (filter (\<lambda>f. \<not> startsWith ''.'' (ename f)) files) [] = (r, kn)" by fastforce
    with run Listing have b: "buildOrLoadEmbeddings svc (?w0\<lparr>knowledge := kn\<rparr>) = (Inr (), w', cs)"
      by (cases r) (simp_all add: loadKnowledge_emb_def)
    from b buildOrLoadEmbeddings_knowledge [of svc "?w0\<lparr>knowledge := kn\<rparr>"]
    have kn: "knowledge w' = kn" by simp
    show ?thesis
    proof (cases "\<exists>es. indexFile w = Index es \<and> length es = length kn")
      case True
      then obtain es where es: "indexFile w = Index es" "length es = length kn" by blast
      with b buildOrLoad_cached [of "?w0\<lparr>knowledge := kn\<rparr>" es svc]
      have "w' = ?w0\<lparr>knowledge := kn, embeddings := es\<rparr>" by simp
      with es kn show ?thesis by auto
    next
      case False
      then have "\<not> (\<exists>es. indexFile (?w0\<lparr>knowledge := kn\<rparr>) = Index es
          \<and> length es = length (knowledge (?w0\<lparr>knowledge := kn\<rparr>)))" by simp
      from buildOrLoad_fresh [OF this, of svc] b obtain all where
        el: "embedLoop svc (map chunk_text kn) 0 [] = (Inr all, cs)"
        and w': "embeddings w' = all"
        by (auto split: prod.splits sum.splits)
      from embedLoop_contract [OF contract el] have "all = map emb (map chunk_text kn)" by simp
      with w' kn False show ?thesis by (auto simp: comp_def)
    qed
  qed
  from main reset rel show ?thesis by blast
qed


lemma fresh_run:
  "loadKnowledge_emb toyServices freshWorld =
     (Inr (),
      \<lparr>knowledge = [\<lparr>chunk_text = ''old'', chunk_source = ''a''\<rparr>], embeddings = [[1, 0]],
       knowledgeDir = sampleDir ''old'', indexFile = Index [[1, 0]], indexWritable = True\<rparr>,
      [EmbeddingsCreate [''old'']])"
  by (simp add: loadKnowledge_emb_def freshWorld_def sampleDir_def toyServices_def sample_names
      sample_push buildOrLoadEmbeddings_def embedLoop.simps BATCH_def toyEmbed_def
      toyVector_def)

lemma edited_world:
  "editedWorld =
     \<lparr>knowledge = [\<lparr>chunk_text = ''old'', chunk_source = ''a''\<rparr>], embeddings = [[1, 0]],
      knowledgeDir = sampleDir ''newer'', indexFile = Index [[1, 0]], indexWritable = True\<rparr>"
  by (simp add: editedWorld_def fresh_run)

lemma edited_run:
  "loadKnowledge_emb toyServices editedWorld =
     (Inr (),
      \<lparr>knowledge = [\<lparr>chunk_text = ''newer'', chunk_source = ''a''\<rparr>], embeddings = [[1, 0]],
       knowledgeDir = sampleDir ''newer'', indexFile = Index [[1, 0]], indexWritable = True\<rparr>,
      [])"
  unfolding edited_world
  by (simp add: loadKnowledge_emb_def sampleDir_def toyServices_def sample_names
      sample_push buildOrLoadEmbeddings_def)

lemma toy_contract:
  "\<forall>batch data. embeddings_create toyServices batch = Inr data \<longrightarrow>
     data = map toyVector batch"
  by (simp add: toyServices_def toyEmbed_def)

text \<open>
  C3 as stated fails. \<^verbatim>\<open>buildOrLoadEmbeddings\<close> takes the array of \<^verbatim>\<open>.index.json\<close> whenever it
  has as many entries as the corpus has chunks. After a first run on a directory whose text
  file reads \<^verbatim>\<open>old\<close> the index holds the vector of \<^verbatim>\<open>old\<close>; the file is rewritten to
  \<^verbatim>\<open>newer\<close>; the second run completes with the chunk \<^verbatim>\<open>newer\<close> and the vector of \<^verbatim>\<open>old\<close>.
\<close>

theorem loadKnowledge_emb_stale_index:
  "fst (loadKnowledge_emb toyServices editedWorld) = Inr ()
   \<and> map chunk_text (knowledge (fst (snd (loadKnowledge_emb toyServices editedWorld)))) = [''newer'']
   \<and> embeddings (fst (snd (loadKnowledge_emb toyServices editedWorld))) = [[1, 0]]
   \<and> embeddings_create toyServices [''newer''] = Inr [[0, 1]]"
  by (simp add: edited_run) (simp add: toyServices_def toyEmbed_def toyVector_def)

theorem loadKnowledge_emb_embeddings_witness:
  "embeddings_create toyServices = (\<lambda>batch. Inr (map toyVector batch))
   \<and> fst (loadKnowledge_emb toyServices freshWorld) = Inr ()
   \<and> indexFile freshWorld = NoIndex
   \<and> embeddings (fst (snd (loadKnowledge_emb toyServices freshWorld))) =
       map (\<lambda>c. toyVector (chunk_text c)) (knowledge (fst (snd (loadKnowledge_emb toyServices freshWorld))))
   \<and> embeddings (fst (snd (loadKnowledge_emb toyServices freshWorld))) = [[1, 0]]
   \<and> fst (loadKnowledge_emb toyServices editedWorld) = Inr ()
   \<and> indexFile editedWorld = Index (embeddings (fst (snd (loadKnowledge_emb toyServices editedWorld))))
   \<and> length (embeddings (fst (snd (loadKnowledge_emb toyServices editedWorld)))) =
       length (knowledge (fst (snd (loadKnowledge_emb toyServices editedWorld))))"
proof -
  note F = loadKnowledge_emb_embeddings [OF fresh_run toy_contract]
  note E = loadKnowledge_emb_embeddings [OF edited_run toy_contract]
  have nf: "\<not> (\<exists>es. indexFile freshWorld = Index es \<and> P es)" for P
    by (simp add: freshWorld_def)
  from F nf have 1: "embeddings (fst (snd (loadKnowledge_emb toyServices freshWorld))) =
       map (\<lambda>c. toyVector (chunk_text c)) (knowledge (fst (snd (loadKnowledge_emb toyServices freshWorld))))"
    unfolding fresh_run by simp
  have ne: "\<exists>es. indexFile editedWorld = Index es \<and> length es =
      length (knowledge (fst (snd (loadKnowledge_emb toyServices editedWorld))))"
    unfolding edited_run by (simp add: edited_world)
  from E ne have 2: "indexFile editedWorld =
      Index (embeddings (fst (snd (loadKnowledge_emb toyServices editedWorld))))"
    unfolding edited_run by simp
  from E have 3: "length (embeddings (fst (snd (loadKnowledge_emb toyServices editedWorld)))) =
       length (knowledge (fst (snd (loadKnowledge_emb toyServices editedWorld))))"
    unfolding edited_run by simp
  have 4: "fst (loadKnowledge_emb toyServices freshWorld) = Inr ()"
    "fst (loadKnowledge_emb toyServices editedWorld) = Inr ()"
    "indexFile freshWorld = NoIndex"
    "embeddings (fst (snd (loadKnowledge_emb toyServices freshWorld))) = [[1, 0]]"
    by (simp_all add: fresh_run edited_run) (simp add: freshWorld_def)
  have 5: "embeddings_create toyServices = (\<lambda>batch. Inr (map toyVector batch))"
    by (simp add: toyServices_def toyEmbed_def fun_eq_iff)
  from 1 2 3 4 5 show ?thesis by blast
qed

section \<open>The embedding retriever ranks by similarity\<close>







lemma rank_scored:
  "scoredEmbedding realArith [1, 0] [[0, 1], [1, 0]] = [(0, 0), (1, 100000000 / 100000001)]"
  by (simp add: scoredEmbedding_def cosineSim_def realArith_def enumerate_eq_zip)

lemma rank_sorted:
  "jsSort (byScore realArith) [(0, 0), (Suc 0, 100000000 / 100000001)] =
     [(Suc 0, 100000000 / 100000001), (0, 0)]"
  by (simp add: jsSort_def byScore_def realArith_def)

lemma rank_query: "embeddings_create toyServices [''old?''] = Inr [[1, 0]]"
  by (simp add: toyServices_def toyEmbed_def toyVector_def)


lemma rank_eval:
  "findRelevantChunksEmbedding toyServices realArith rankWorld ''old?'' k =
     (Inr (map (\<lambda>x. nthOpt (knowledge rankWorld) (fst x))
            (jsSlice0 [(Suc 0, 100000000 / 100000001), (0, 0 :: real)] k)),
      [EmbeddingsCreate [''old?'']])"
  by (simp add: findRelevantChunksEmbedding_def rank_query case_prod_unfold)
     (simp add: rankWorld_def rank_scored rank_sorted)


lemma rank_top8:
  "findRelevantChunksEmbedding toyServices realArith rankWorld ''old?'' 8 =
     (Inr [Some \<lparr>chunk_text = ''old'', chunk_source = ''a''\<rparr>,
           Some \<lparr>chunk_text = ''newer'', chunk_source = ''b''\<rparr>],
      [EmbeddingsCreate [''old?'']])"
  unfolding rank_eval by (simp add: jsSlice0_def nthOpt_def rankWorld_def)


section \<open>The chat route answers every request\<close>

declare showNat.simps [simp del]

lemma hitLines_kw_enum:
  "hitLines_kw i cs = map (\<lambda>(j, c). ''['' @ showNat (j + 1) @ ''] '' @ c) (enumerate i cs)"
  by (induction cs arbitrary: i) simp_all

lemma context_kw_block:
  "context_kw hits = referenceBlock ''Studio Reference (from uploaded PDFs):'' hits"
  by (simp add: context_kw_def referenceBlock_def hitLines_kw_enum)

lemma hitLines_emb_Some:
  "hitLines_emb i (map Some hs) =
     Inr (map (\<lambda>(j, p). ''['' @ showNat (j + 1) @ ''] '' @ p) (enumerate i (map passage_emb hs)))"
  by (induction hs arbitrary: i) (simp_all add: passage_emb_def)

lemma hitLines_emb_Inr:
  "hitLines_emb i hits = Inr ls \<Longrightarrow> \<exists>hs. hits = map Some hs"
proof (induction hits arbitrary: i ls)
  case Nil
  show ?case by simp
next
  case (Cons h hits)
  then obtain c where c: "h = Some c" by (cases h) auto
  with Cons.prems obtain ls' where "hitLines_emb (i + 1) hits = Inr ls'"
    by (auto split: sum.splits)
  from Cons.IH [OF this] obtain hs where "hits = map Some hs" by blast
  with c have "h # hits = map Some (c # hs)" by simp
  then show ?case by (rule exI)
qed

lemma context_emb_Inr:
  assumes "context_emb hits = Inr c"
  shows "\<exists>hs. hits = map Some hs \<and> c = referenceBlock ''Studio Reference:'' (map passage_emb hs)"
proof (cases "hits = []")
  case True
  with assms show ?thesis by (simp add: context_emb_def referenceBlock_def)
next
  case False
  with assms obtain ls where ls: "hitLines_emb 0 hits = Inr ls"
    by (auto simp: context_emb_def split: sum.splits)
  from hitLines_emb_Inr [OF this] obtain hs where hs: "hits = map Some hs" by blast
  with ls have "ls = map (\<lambda>(j, p). ''['' @ showNat (j + 1) @ ''] '' @ p) (enumerate 0 (map passage_emb hs))"
    by (simp add: hitLines_emb_Some)
  with assms False hs ls show ?thesis
    by (auto simp: context_emb_def referenceBlock_def)
qed

lemma extractReply_emb_eq:
  "extractReply_emb out = (if answerText_emb out = [] then fallback_emb else answerText_emb out)"
  by (simp add: extractReply_emb_def Let_def)

lemma extractReply_kw_eq:
  "extractReply_kw out = (if answerText_kw out = [] then fallback_kw else answerText_kw out)"
  by (simp add: extractReply_kw_def Let_def)

lemma chat_kw_eq:
  "chat_kw create v message =
     (case create [(System, system_kw (instructions v) @
                      referenceBlock ''Studio Reference (from uploaded PDFs):''
                        (findRelevantChunks v (userMessageOf message) 5)),
                   (User, userMessageOf message)] of
        Inl e \<Rightarrow> serverError e
      | Inr out \<Rightarrow> Reply (extractReply_kw out),
      [ResponsesCreate
         [(System, system_kw (instructions v) @
             referenceBlock ''Studio Reference (from uploaded PDFs):''
               (findRelevantChunks v (userMessageOf message) 5)),
          (User, userMessageOf message)]])"
  by (simp add: chat_kw_def Let_def context_kw_block split: sum.split)

lemma chat_emb_cases:
  obtains (retrieval) e cs where
      "findRelevantChunksEmbedding svc fp w (userMessageOf message) 8 = (Inl e, cs)"
      "chat_emb svc fp w message = (serverError e, cs)"
  | (render) hits cs e where
      "findRelevantChunksEmbedding svc fp w (userMessageOf message) 8 = (Inr hits, cs)"
      "context_emb hits = Inl e"
      "chat_emb svc fp w message = (serverError e, cs)"
  | (model) hs cs where
      "findRelevantChunksEmbedding svc fp w (userMessageOf message) 8 = (Inr (map Some hs), cs)"
      "chat_emb svc fp w message =
         (case responses_create svc
                 [(System, system_emb @ referenceBlock ''Studio Reference:'' (map passage_emb hs)),
                  (User, userMessageOf message)] of
            Inl e \<Rightarrow> serverError e
          | Inr out \<Rightarrow> Reply (extractReply_emb out),
          cs @ [ResponsesCreate
                 [(System, system_emb @ referenceBlock ''Studio Reference:'' (map passage_emb hs)),
                  (User, userMessageOf message)]])"
proof -
  obtain r cs where f: "findRelevantChunksEmbedding svc fp w (userMessageOf message) 8 = (r, cs)"
    by fastforce
  show thesis
  proof (cases r)
    case (Inl e)
    with f have "chat_emb svc fp w message = (serverError e, cs)"
      by (simp add: chat_emb_def Let_def)
    with f Inl show thesis using retrieval by blast
  next
    case (Inr hits)
    show thesis
    proof (cases "context_emb hits")
      case (Inl e)
      with f Inr have "chat_emb svc fp w message = (serverError e, cs)"
        by (simp add: chat_emb_def Let_def)
      with f Inr Inl show thesis using render by blast
    next
      case c: (Inr c)
      from context_emb_Inr [OF c] obtain hs where hs: "hits = map Some hs"
        "c = referenceBlock ''Studio Reference:'' (map passage_emb hs)" by blast
      from f Inr c have "chat_emb svc fp w message =
         (case responses_create svc [(System, system_emb @ c), (User, userMessageOf message)] of
            Inl e \<Rightarrow> serverError e
          | Inr out \<Rightarrow> Reply (extractReply_emb out),
          cs @ [ResponsesCreate [(System, system_emb @ c), (User, userMessageOf message)]])"
        by (simp add: chat_emb_def Let_def split: sum.split)
      with f Inr hs show thesis using model by blast
    qed
  qed
qed

lemma retriever_calls:
  "findRelevantChunksEmbedding svc fp w q k = (r, cs) \<Longrightarrow> ResponsesCreate p \<notin> set cs"
  by (auto simp: findRelevantChunksEmbedding_def split: if_splits sum.splits list.splits)


text \<open>
  C5, amended. Every prompt that \<^verbatim>\<open>POST /api/chat\<close> forwards to the language model consists
  of the fixed system instruction followed by the retrieved passages as a numbered
  reference block in retrieval order (by nothing when no passage was retrieved), and of
  the user's message as the user turn; when the model call answers, the \<^verbatim>\<open>reply\<close> field of
  the response is the model's answer text when that is not empty, and the fixed fallback
  sentence otherwise.
\<close>

theorem chat_prompt_and_reply:
  "(\<forall>p. ResponsesCreate p \<in> set (snd (chat_emb svc fp w message)) \<longrightarrow>
      (\<exists>hits.
         fst (findRelevantChunksEmbedding svc fp w (userMessageOf message) 8) = Inr (map Some hits)
         \<and> p = [(System, system_emb @ referenceBlock ''Studio Reference:'' (map passage_emb hits)),
                (User, userMessageOf message)]
         \<and> (\<forall>out. responses_create svc p = Inr out \<longrightarrow>
               fst (chat_emb svc fp w message) =
                 Reply (if answerText_emb out = [] then fallback_emb else answerText_emb out))))
   \<and> (\<exists>p. p = [(System, system_kw (instructions v) @
                    referenceBlock ''Studio Reference (from uploaded PDFs):''
                      (findRelevantChunks v (userMessageOf message) 5)),
                 (User, userMessageOf message)]
        \<and> snd (chat_kw create v message) = [ResponsesCreate p]
        \<and> (\<forall>out. create p = Inr out \<longrightarrow>
              fst (chat_kw create v message) =
                Reply (if answerText_kw out = [] then fallback_kw else answerText_kw out)))"
proof
  show "\<forall>p. ResponsesCreate p \<in> set (snd (chat_emb svc fp w message)) \<longrightarrow>
      (\<exists>hits.
         fst (findRelevantChunksEmbedding svc fp w (userMessageOf message) 8) = Inr (map Some hits)
         \<and> p = [(System, system_emb @ referenceBlock ''Studio Reference:'' (map passage_emb hits)),
                (User, userMessageOf message)]
         \<and> (\<forall>out. responses_create svc p = Inr out \<longrightarrow>
               fst (chat_emb svc fp w message) =
                 Reply (if answerText_emb out = [] then fallback_emb else answerText_emb out)))"
  proof (intro allI impI)
    fix p assume p: "ResponsesCreate p \<in> set (snd (chat_emb svc fp w message))"
    show "\<exists>hits.
         fst (findRelevantChunksEmbedding svc fp w (userMessageOf message) 8) = Inr (map Some hits)
         \<and> p = [(System, system_emb @ referenceBlock ''Studio Reference:'' (map passage_emb hits)),
                (User, userMessageOf message)]
         \<and> (\<forall>out. responses_create svc p = Inr out \<longrightarrow>
               fst (chat_emb svc fp w message) =
                 Reply (if answerText_emb out = [] then fallback_emb else answerText_emb out))"
    proof (cases rule: chat_emb_cases [of svc fp w message])
      case (retrieval e cs)
      with p retriever_calls [OF retrieval(1)] show ?thesis by simp
    next
      case (render hits cs e)
      with p retriever_calls [OF render(1)] show ?thesis by simp
    next
      case (model hs cs)
      let ?P = "[(System, system_emb @ referenceBlock ''Studio Reference:'' (map passage_emb hs)),
                  (User, userMessageOf message)]"
      from p model(2) retriever_calls [OF model(1)] have "p = ?P" by auto
      moreover have "\<forall>out. responses_create svc ?P = Inr out \<longrightarrow>
               fst (chat_emb svc fp w message) =
                 Reply (if answerText_emb out = [] then fallback_emb else answerText_emb out)"
        using model(2) by (simp add: extractReply_emb_eq)
      ultimately show ?thesis using model(1) by (intro exI [of _ hs]) simp
    qed
  qed
next
  show "\<exists>p. p = [(System, system_kw (instructions v) @
                    referenceBlock ''Studio Reference (from uploaded PDFs):''
                      (findRelevantChunks v (userMessageOf message) 5)),
                 (User, userMessageOf message)]
        \<and> snd (chat_kw create v message) = [ResponsesCreate p]
        \<and> (\<forall>out. create p = Inr out \<longrightarrow>
              fst (chat_kw create v message) =
                Reply (if answerText_kw out = [] then fallback_kw else answerText_kw out))"
    by (simp add: chat_kw_eq extractReply_kw_eq)
qed

lemma fallback_nonempty: "fallback_emb \<noteq> []" "fallback_kw \<noteq> []"
  by (simp_all add: fallback_emb_def fallback_kw_def)

lemma serverError_nonempty: "serverError e = ServerError e' \<Longrightarrow> e' \<noteq> []"
  by (auto simp: serverError_def split: if_splits)

lemma extractReply_nonempty: "extractReply_emb out \<noteq> []" "extractReply_kw out \<noteq> []"
  by (simp_all add: extractReply_emb_eq extractReply_kw_eq fallback_nonempty)

lemma referenceBlock_Nil: "referenceBlock header [] = []"
  by (simp add: referenceBlock_def)

lemma loadKnowledge_emb_empty:
  assumes "knowledge (fst (snd (loadKnowledge_emb svc w))) = []"
  shows "embeddings (fst (snd (loadKnowledge_emb svc w))) = []
       \<and> snd (snd (loadKnowledge_emb svc w)) = []"
proof (cases "knowledgeDir w")
  case Missing
  then show ?thesis by (simp add: loadKnowledge_emb_def)
next
  case Unlistable
  then show ?thesis by (simp add: loadKnowledge_emb_def)
next
  case (Listing files)
  let ?w0 = "w\<lparr>knowledge := [], embeddings := []\<rparr>"
  obtain r kn where lf: "loadFiles_emb (pdfParse svc)
      (filter (\<lambda>f. \<not> startsWith ''.'' (ename f)) files) [] = (r, kn)" by fastforce
  show ?thesis
  proof (cases r)
    case (Inl e)
    with lf Listing show ?thesis by (simp add: loadKnowledge_emb_def)
  next
    case (Inr u)
    with lf Listing have eq: "loadKnowledge_emb svc w =
        buildOrLoadEmbeddings svc (?w0\<lparr>knowledge := kn\<rparr>)"
      by (simp add: loadKnowledge_emb_def)
    with assms buildOrLoadEmbeddings_knowledge [of svc "?w0\<lparr>knowledge := kn\<rparr>"]
    have kn: "kn = []" by simp
    show ?thesis unfolding eq kn
      by (cases "indexFile w")
         (simp_all add: buildOrLoadEmbeddings_def embedLoop.simps [of svc "[]"])
  qed
qed

text \<open>
  C9. With an empty corpus both retrievers return the empty list, the embedding retriever
  without any call to the embedding service, and \<^verbatim>\<open>POST /api/chat\<close> sends the model the
  system instruction alone, with no reference block, followed by the user turn, and
  answers with status 200 whenever the model call answers. The corpus is empty after
  \<^verbatim>\<open>loadKnowledge\<close> when the knowledge directory is missing, and whenever no chunk was
  loaded there are no embeddings either, and no embedding call was made.
\<close>

theorem empty_corpus:
  "(knowledge w = [] \<or> embeddings w = [] \<longrightarrow>
      findRelevantChunksEmbedding svc fp w question k = (Inr [], [])
      \<and> snd (chat_emb svc fp w message) =
          [ResponsesCreate [(System, system_emb), (User, userMessageOf message)]]
      \<and> (\<forall>out. responses_create svc [(System, system_emb), (User, userMessageOf message)] = Inr out
            \<longrightarrow> fst (chat_emb svc fp w message) = Reply (extractReply_emb out)))
   \<and> (knowledgeChunks v = [] \<longrightarrow>
      findRelevantChunks v question max' = []
      \<and> snd (chat_kw create v message) =
          [ResponsesCreate [(System, system_kw (instructions v)), (User, userMessageOf message)]]
      \<and> (\<forall>out. create [(System, system_kw (instructions v)), (User, userMessageOf message)] = Inr out
            \<longrightarrow> fst (chat_kw create v message) = Reply (extractReply_kw out)))
   \<and> (knowledge (fst (snd (loadKnowledge_emb svc w0))) = [] \<longrightarrow>
      embeddings (fst (snd (loadKnowledge_emb svc w0))) = []
      \<and> snd (snd (loadKnowledge_emb svc w0)) = [])
   \<and> (knowledgeDir w0 = Missing \<longrightarrow> knowledge (fst (snd (loadKnowledge_emb svc w0))) = [])
   \<and> (knowledgeDir_kw v0 = Missing \<longrightarrow> knowledgeChunks (snd (loadKnowledge_kw pdf v0)) = [])"
proof (intro conjI impI)
  assume e: "knowledge w = [] \<or> embeddings w = []"
  then show r: "findRelevantChunksEmbedding svc fp w question k = (Inr [], [])" for question k
    by (auto simp: findRelevantChunksEmbedding_def)
  have c: "chat_emb svc fp w message =
      (case responses_create svc [(System, system_emb), (User, userMessageOf message)] of
         Inl e \<Rightarrow> serverError e | Inr out \<Rightarrow> Reply (extractReply_emb out),
       [ResponsesCreate [(System, system_emb), (User, userMessageOf message)]])"
    by (simp add: chat_emb_def Let_def r context_emb_def split: sum.split)
  show "snd (chat_emb svc fp w message) =
          [ResponsesCreate [(System, system_emb), (User, userMessageOf message)]]"
    by (simp add: c)
  show "\<forall>out. responses_create svc [(System, system_emb), (User, userMessageOf message)] = Inr out
            \<longrightarrow> fst (chat_emb svc fp w message) = Reply (extractReply_emb out)"
    by (simp add: c)
next
  assume e: "knowledgeChunks v = []"
  then show r: "findRelevantChunks v question max' = []" for question max'
    by (simp add: findRelevantChunks_def)
  show "snd (chat_kw create v message) =
          [ResponsesCreate [(System, system_kw (instructions v)), (User, userMessageOf message)]]"
    by (simp add: chat_kw_eq r referenceBlock_Nil)
  show "\<forall>out. create [(System, system_kw (instructions v)), (User, userMessageOf message)] = Inr out
            \<longrightarrow> fst (chat_kw create v message) = Reply (extractReply_kw out)"
    by (simp add: chat_kw_eq r referenceBlock_Nil)
next
  assume "knowledge (fst (snd (loadKnowledge_emb svc w0))) = []"
  from loadKnowledge_emb_empty [OF this]
  show "embeddings (fst (snd (loadKnowledge_emb svc w0))) = []"
    "snd (snd (loadKnowledge_emb svc w0)) = []" by simp_all
next
  assume "knowledgeDir w0 = Missing"
  then show "knowledge (fst (snd (loadKnowledge_emb svc w0))) = []"
    by (simp add: loadKnowledge_emb_def)
next
  assume "knowledgeDir_kw v0 = Missing"
  then show "knowledgeChunks (snd (loadKnowledge_kw pdf v0)) = []"
    by (simp add: loadKnowledge_kw_def)
qed


lemma silent_answer:
  "answerText_emb silentOut = []" "answerText_kw silentOut = []"
  "extractReply_emb silentOut = fallback_emb" "extractReply_kw silentOut = fallback_kw"
  by (simp_all add: extractReply_emb_eq extractReply_kw_eq)
     (simp_all add: answerText_emb_def answerText_kw_def silentOut_def truthy_def)

lemma yes_answer:
  "answerText_emb \<lparr>out_output_text = Some ''Yes.'', out_output = None,
      out_response_output_text = None\<rparr> = ''Yes.''"
  "answerText_kw \<lparr>out_output_text = Some ''Yes.'', out_output = None,
      out_response_output_text = None\<rparr> = ''Yes.''"
  by (simp_all add: answerText_emb_def answerText_kw_def truthy_def orEmpty_def)

lemma digit_chars: "char_of (49::nat) = CHR ''1''" "char_of (50::nat) = CHR ''2''"
  by code_simp+

lemma sample_block_kw:
  "referenceBlock ''Studio Reference (from uploaded PDFs):'' [''Fee: 5'', ''fee''] =
     ''\<newline>\<newline>Studio Reference (from uploaded PDFs):\<newline>[1] Fee: 5\<newline>\<newline>[2] fee\<newline>\<newline>''"
  by (simp add: referenceBlock_def showNat.simps digit_chars)

lemma sample_block_emb:
  "referenceBlock ''Studio Reference:''
     (map passage_emb [\<lparr>chunk_text = ''old'', chunk_source = ''a''\<rparr>,
                       \<lparr>chunk_text = ''newer'', chunk_source = ''b''\<rparr>]) =
     ''\<newline>\<newline>Studio Reference:\<newline>[1] (a) old\<newline>\<newline>[2] (b) newer\<newline>\<newline>''"
  by (simp add: referenceBlock_def showNat.simps passage_emb_def digit_chars)

lemma retriever_services:
  "findRelevantChunksEmbedding (svc\<lparr>responses_create := f\<rparr>) fp w q k =
     findRelevantChunksEmbedding svc fp w q k"
  by (simp add: findRelevantChunksEmbedding_def)

theorem chat_prompt_and_reply_witness:
  "ResponsesCreate
     [(System, system_emb @
         ''\<newline>\<newline>Studio Reference:\<newline>[1] (a) old\<newline>\<newline>[2] (b) newer\<newline>\<newline>''),
      (User, ''old?'')]
     \<in> set (snd (chat_emb answeringServices realArith rankWorld (Some ''old?'')))
   \<and> fst (chat_emb answeringServices realArith rankWorld (Some ''old?'')) = Reply ''Yes.''
   \<and> snd (chat_kw answeringModel sampleWorld_kw (Some ''fee 7?'')) =
       [ResponsesCreate
          [(System, system_kw [] @
              ''\<newline>\<newline>Studio Reference (from uploaded PDFs):\<newline>[1] Fee: 5\<newline>\<newline>[2] fee\<newline>\<newline>''),
           (User, ''fee 7?'')]]
   \<and> fst (chat_kw answeringModel sampleWorld_kw (Some ''fee 7?'')) = Reply ''Yes.''"
proof -
  let ?out = "\<lparr>out_output_text = Some ''Yes.'', out_output = None,
      out_response_output_text = None\<rparr>"
  let ?Pe = "[(System, system_emb @
         ''\<newline>\<newline>Studio Reference:\<newline>[1] (a) old\<newline>\<newline>[2] (b) newer\<newline>\<newline>''),
      (User, ''old?'')]"
  let ?Pk = "[(System, system_kw [] @
              ''\<newline>\<newline>Studio Reference (from uploaded PDFs):\<newline>[1] Fee: 5\<newline>\<newline>[2] fee\<newline>\<newline>''),
           (User, ''fee 7?'')]"
  note T = chat_prompt_and_reply
    [of answeringServices realArith rankWorld "Some ''old?''" sampleWorld_kw answeringModel]
  note K = chat_prompt_and_reply
    [of answeringServices realArith rankWorld "Some ''fee 7?''" sampleWorld_kw answeringModel]
  have um: "userMessageOf (Some ''old?'') = ''old?''" "userMessageOf (Some ''fee 7?'') = ''fee 7?''"
    by (simp_all add: userMessageOf_def)
  have ret: "findRelevantChunksEmbedding answeringServices realArith rankWorld ''old?'' 8 =
     (Inr (map Some [\<lparr>chunk_text = ''old'', chunk_source = ''a''\<rparr>,
                     \<lparr>chunk_text = ''newer'', chunk_source = ''b''\<rparr>]),
      [EmbeddingsCreate [''old?'']])"
    unfolding answeringServices_def retriever_services rank_top8 by simp
  have mem: "ResponsesCreate ?Pe
     \<in> set (snd (chat_emb answeringServices realArith rankWorld (Some ''old?'')))"
  proof (cases rule: chat_emb_cases [of answeringServices realArith rankWorld "Some ''old?''"])
    case (retrieval e cs)
    with ret um show ?thesis by simp
  next
    case (render hits cs e)
    with ret um have "context_emb (map Some [\<lparr>chunk_text = ''old'', chunk_source = ''a''\<rparr>,
                     \<lparr>chunk_text = ''newer'', chunk_source = ''b''\<rparr>]) = Inl e" by simp
    then show ?thesis by (simp add: context_emb_def split: sum.splits)
  next
    case (model hs cs)
    with ret um have "map Some hs = map Some [\<lparr>chunk_text = ''old'', chunk_source = ''a''\<rparr>,
                     \<lparr>chunk_text = ''newer'', chunk_source = ''b''\<rparr>]" by simp
    then have "hs = [\<lparr>chunk_text = ''old'', chunk_source = ''a''\<rparr>,
                     \<lparr>chunk_text = ''newer'', chunk_source = ''b''\<rparr>]"
      by (simp add: map_eq_Cons_conv)
    with model(2) um show ?thesis unfolding sample_block_emb [symmetric] by simp
  qed
  have me: "responses_create answeringServices ?Pe = Inr ?out"
    by (simp add: answeringServices_def answeringModel_def)
  from T mem me have e: "fst (chat_emb answeringServices realArith rankWorld (Some ''old?'')) =
      Reply (if answerText_emb ?out = [] then fallback_emb else answerText_emb ?out)"
    by blast
  from K have "snd (chat_kw answeringModel sampleWorld_kw (Some ''fee 7?'')) =
      [ResponsesCreate [(System, system_kw (instructions sampleWorld_kw) @
          referenceBlock ''Studio Reference (from uploaded PDFs):''
            (findRelevantChunks sampleWorld_kw (userMessageOf (Some ''fee 7?'')) 5)),
        (User, userMessageOf (Some ''fee 7?''))]]" by blast
  then have k1: "snd (chat_kw answeringModel sampleWorld_kw (Some ''fee 7?'')) = [ResponsesCreate ?Pk]"
    unfolding um sample_hits sample_block_kw by (simp add: sampleWorld_kw_def)
  have "answeringModel p = Inr ?out" for p by (simp add: answeringModel_def)
  with K have k2: "fst (chat_kw answeringModel sampleWorld_kw (Some ''fee 7?'')) =
      Reply (if answerText_kw ?out = [] then fallback_kw else answerText_kw ?out)" by blast
  from mem e k1 k2 show ?thesis unfolding yes_answer by simp
qed

text \<open>
  C5 as stated fails in its last clause: when the model answers with an empty text the
  \<^verbatim>\<open>reply\<close> field is the fallback sentence, not the model's answer text.
\<close>

theorem chat_reply_is_fallback:
  "fst (chat_kw silentModel emptyWorld_kw (Some ''hi'')) = Reply fallback_kw
   \<and> snd (chat_kw silentModel emptyWorld_kw (Some ''hi'')) =
       [ResponsesCreate [(System, system_kw []), (User, ''hi'')]]
   \<and> silentModel [(System, system_kw []), (User, ''hi'')] = Inr silentOut
   \<and> answerText_kw silentOut = []
   \<and> fst (chat_kw silentModel emptyWorld_kw (Some ''hi'')) \<noteq> Reply (answerText_kw silentOut)"
proof -
  have r: "findRelevantChunks emptyWorld_kw q 5 = []" for q
    by (simp add: findRelevantChunks_def emptyWorld_kw_def)
  have c: "chat_kw silentModel emptyWorld_kw (Some ''hi'') =
      (Reply fallback_kw, [ResponsesCreate [(System, system_kw []), (User, ''hi'')]])"
    by (simp add: chat_kw_eq r referenceBlock_Nil silentModel_def silent_answer)
       (simp add: emptyWorld_kw_def userMessageOf_def)
  show ?thesis unfolding c by (simp add: silent_answer fallback_nonempty silentModel_def)
qed


theorem empty_corpus_witness:
  "knowledge emptyWorld = []
   \<and> findRelevantChunksEmbedding toyServices realArith emptyWorld ''hi'' 8 = (Inr [], [])
   \<and> snd (chat_emb toyServices realArith emptyWorld (Some ''hi'')) =
       [ResponsesCreate [(System, system_emb), (User, ''hi'')]]
   \<and> fst (chat_emb toyServices realArith emptyWorld (Some ''hi'')) = Reply fallback_emb
   \<and> knowledgeChunks emptyWorld_kw = []
   \<and> findRelevantChunks emptyWorld_kw ''hi'' 5 = []
   \<and> snd (chat_kw answeringModel emptyWorld_kw (Some ''hi'')) =
       [ResponsesCreate [(System, system_kw []), (User, ''hi'')]]
   \<and> fst (chat_kw answeringModel emptyWorld_kw (Some ''hi'')) = Reply ''Yes.''
   \<and> knowledgeDir emptyWorld = Missing
   \<and> knowledge (fst (snd (loadKnowledge_emb toyServices emptyWorld))) = []
   \<and> embeddings (fst (snd (loadKnowledge_emb toyServices emptyWorld))) = []
   \<and> snd (snd (loadKnowledge_emb toyServices emptyWorld)) = []
   \<and> knowledgeDir_kw emptyWorld_kw = Missing
   \<and> knowledgeChunks (snd (loadKnowledge_kw None emptyWorld_kw)) = []"
proof -
  let ?out = "\<lparr>out_output_text = Some ''Yes.'', out_output = None,
      out_response_output_text = None\<rparr>"
  note T = empty_corpus [of emptyWorld toyServices realArith "''hi''" 8 "Some ''hi''"
      emptyWorld_kw 5 answeringModel emptyWorld emptyWorld_kw None]
  have h: "knowledge emptyWorld = []" "knowledgeChunks emptyWorld_kw = []"
    "knowledgeDir emptyWorld = Missing" "knowledgeDir_kw emptyWorld_kw = Missing"
    "instructions emptyWorld_kw = []" "userMessageOf (Some ''hi'') = ''hi''"
    by (simp_all add: emptyWorld_def emptyWorld_kw_def userMessageOf_def)
  have m: "responses_create toyServices p = Inr silentOut" "answeringModel p = Inr ?out" for p
    by (simp_all add: toyServices_def silentModel_def answeringModel_def)
  have y: "extractReply_kw ?out = ''Yes.''" by (simp add: extractReply_kw_eq yes_answer)
  from T h have 1: "findRelevantChunksEmbedding toyServices realArith emptyWorld ''hi'' 8 = (Inr [], [])"
    "snd (chat_emb toyServices realArith emptyWorld (Some ''hi'')) =
       [ResponsesCreate [(System, system_emb), (User, ''hi'')]]"
    "findRelevantChunks emptyWorld_kw ''hi'' 5 = []"
    "snd (chat_kw answeringModel emptyWorld_kw (Some ''hi'')) =
       [ResponsesCreate [(System, system_kw []), (User, ''hi'')]]"
    "knowledge (fst (snd (loadKnowledge_emb toyServices emptyWorld))) = []"
    "knowledgeChunks (snd (loadKnowledge_kw None emptyWorld_kw)) = []"
    by simp_all
  from T 1(5) have 2: "embeddings (fst (snd (loadKnowledge_emb toyServices emptyWorld))) = []"
    "snd (snd (loadKnowledge_emb toyServices emptyWorld)) = []" by simp_all
  from T h m(1) [of "[(System, system_emb), (User, ''hi'')]"]
  have 3: "fst (chat_emb toyServices realArith emptyWorld (Some ''hi'')) = Reply fallback_emb"
    by (simp add: silent_answer)
  from T h m(2) [of "[(System, system_kw []), (User, ''hi'')]"]
  have 4: "fst (chat_kw answeringModel emptyWorld_kw (Some ''hi'')) = Reply ''Yes.''"
    by (simp add: y)
  from h 1 2 3 4 show ?thesis by blast
qed

lemma hitLines_emb_undefined: "None \<in> set hits \<Longrightarrow> hitLines_emb i hits = Inl ''TypeError''"
proof (induction hits arbitrary: i)
  case Nil
  then show ?case by simp
next
  case (Cons h hits)
  show ?case
  proof (cases h)
    case None
    then show ?thesis by simp
  next
    case (Some c)
    with Cons.prems have "None \<in> set hits" by simp
    from Cons.IH [OF this] Some show ?thesis by simp
  qed
qed

lemma context_emb_undefined: "None \<in> set hits \<Longrightarrow> context_emb hits = Inl ''TypeError''"
  by (auto simp: context_emb_def hitLines_emb_undefined)

lemma context_emb_defined:
  "context_emb (map Some hs) = Inr (referenceBlock ''Studio Reference:'' (map passage_emb hs))"
  by (simp add: context_emb_def referenceBlock_def hitLines_emb_Some)

lemma all_defined: "None \<notin> set hits \<Longrightarrow> \<exists>hs. hits = map Some hs"
proof (induction hits)
  case Nil
  show ?case by simp
next
  case (Cons h hits)
  then obtain c hs where "h = Some c" "hits = map Some hs" by (cases h) auto
  then have "h # hits = map Some (c # hs)" by simp
  then show ?case by (rule exI)
qed

lemma retriever_throws:
  "fst (findRelevantChunksEmbedding svc fp w question k) = Inl e \<longleftrightarrow>
     knowledge w \<noteq> [] \<and> embeddings w \<noteq> [] \<and>
     (embeddings_create svc [question] = Inl e \<or>
      (embeddings_create svc [question] = Inr [] \<and> e = ''TypeError''))"
  by (auto simp: findRelevantChunksEmbedding_def split: sum.splits list.splits)

lemma postChat_printable:
  "messageText req = Some um \<Longrightarrow>
     postChat_emb svc fp w req = chat_emb svc fp w (if um = [] then None else Some um) \<and>
     postChat_kw create v req = chat_kw create v (if um = [] then None else Some um) \<and>
     userMessageOf (if um = [] then None else Some um) = um"
  by (cases req)
     (auto simp: messageText_def postChat_emb_def postChat_kw_def userMessageOf_def
        chat_emb_def chat_kw_def)

text \<open>
  C8. Every \<^verbatim>\<open>POST /api/chat\<close> request is answered in exactly one of two ways: with status
  200 and a \<^verbatim>\<open>reply\<close> that is a non-empty string, or with status 500 and a non-empty
  \<^verbatim>\<open>error\<close>. The answer is the 200 reply exactly when no step throws, and the reply is then
  the answer text of the model call or, when that is empty, the fixed fallback sentence.
  Each step that throws gives the 500 answer with the message of its error: the
  conversion of the message to a string; in the embedding variant the embedding call, the
  read of its first vector, and the rendering of a hit that is \<^verbatim>\<open>undefined\<close>; and the model
  call.
\<close>

theorem chat_outcomes:
  "((\<exists>r. fst (postChat_emb svc fp w req) = Reply r \<and> r \<noteq> [])
      \<or> (\<exists>e. fst (postChat_emb svc fp w req) = ServerError e \<and> e \<noteq> []))
   \<and> ((\<exists>r. fst (postChat_emb svc fp w req) = Reply r) \<longleftrightarrow>
        (\<exists>um hs out. messageText req = Some um
           \<and> fst (findRelevantChunksEmbedding svc fp w um 8) = Inr (map Some hs)
           \<and> responses_create svc
                [(System, system_emb @ referenceBlock ''Studio Reference:'' (map passage_emb hs)),
                 (User, um)] = Inr out))
   \<and> (messageText req = None \<longrightarrow> postChat_emb svc fp w req = (ServerError ''TypeError'', []))
   \<and> (\<forall>um e. messageText req = Some um
          \<and> fst (findRelevantChunksEmbedding svc fp w um 8) = Inl e \<longrightarrow>
          fst (postChat_emb svc fp w req) = ServerError (if e = [] then ''Server error'' else e)
          \<and> (\<forall>p. ResponsesCreate p \<notin> set (snd (postChat_emb svc fp w req))))
   \<and> (\<forall>um e. fst (findRelevantChunksEmbedding svc fp w um 8) = Inl e \<longleftrightarrow>
          knowledge w \<noteq> [] \<and> embeddings w \<noteq> [] \<and>
          (embeddings_create svc [um] = Inl e \<or>
           (embeddings_create svc [um] = Inr [] \<and> e = ''TypeError'')))
   \<and> (\<forall>um hits. messageText req = Some um
          \<and> fst (findRelevantChunksEmbedding svc fp w um 8) = Inr hits \<and> None \<in> set hits \<longrightarrow>
          fst (postChat_emb svc fp w req) = ServerError ''TypeError''
          \<and> (\<forall>p. ResponsesCreate p \<notin> set (snd (postChat_emb svc fp w req))))
   \<and> (\<forall>um hs e. messageText req = Some um
          \<and> fst (findRelevantChunksEmbedding svc fp w um 8) = Inr (map Some hs)
          \<and> responses_create svc
               [(System, system_emb @ referenceBlock ''Studio Reference:'' (map passage_emb hs)),
                (User, um)] = Inl e \<longrightarrow>
          fst (postChat_emb svc fp w req) = ServerError (if e = [] then ''Server error'' else e))
   \<and> (\<forall>um hs out. messageText req = Some um
          \<and> fst (findRelevantChunksEmbedding svc fp w um 8) = Inr (map Some hs)
          \<and> responses_create svc
               [(System, system_emb @ referenceBlock ''Studio Reference:'' (map passage_emb hs)),
                (User, um)] = Inr out \<longrightarrow>
          fst (postChat_emb svc fp w req) =
            Reply (if answerText_emb out = [] then fallback_emb else answerText_emb out))
   \<and> ((\<exists>r. fst (postChat_kw create v req) = Reply r \<and> r \<noteq> [])
      \<or> (\<exists>e. fst (postChat_kw create v req) = ServerError e \<and> e \<noteq> []))
   \<and> ((\<exists>r. fst (postChat_kw create v req) = Reply r) \<longleftrightarrow>
        (\<exists>um out. messageText req = Some um
           \<and> create [(System, system_kw (instructions v) @
                         referenceBlock ''Studio Reference (from uploaded PDFs):''
                           (findRelevantChunks v um 5)),
                      (User, um)] = Inr out))
   \<and> (messageText req = None \<longrightarrow> postChat_kw create v req = (ServerError ''TypeError'', []))
   \<and> (\<forall>um e. messageText req = Some um
          \<and> create [(System, system_kw (instructions v) @
                        referenceBlock ''Studio Reference (from uploaded PDFs):''
                          (findRelevantChunks v um 5)),
                     (User, um)] = Inl e \<longrightarrow>
          fst (postChat_kw create v req) = ServerError (if e = [] then ''Server error'' else e))
   \<and> (\<forall>um out. messageText req = Some um
          \<and> create [(System, system_kw (instructions v) @
                        referenceBlock ''Studio Reference (from uploaded PDFs):''
                          (findRelevantChunks v um 5)),
                     (User, um)] = Inr out \<longrightarrow>
          fst (postChat_kw create v req) =
            Reply (if answerText_kw out = [] then fallback_kw else answerText_kw out))"
proof -
  let ?Re = "postChat_emb svc fp w req"
  let ?Rk = "postChat_kw create v req"
  let ?Pe = "\<lambda>um hs. [(System, system_emb @ referenceBlock ''Studio Reference:'' (map passage_emb hs)),
                 (User, um)]"
  let ?Pk = "\<lambda>um. [(System, system_kw (instructions v) @
                         referenceBlock ''Studio Reference (from uploaded PDFs):''
                           (findRelevantChunks v um 5)),
                      (User, um)]"
  have none: "messageText req = None \<Longrightarrow>
      ?Re = (ServerError ''TypeError'', []) \<and> ?Rk = (ServerError ''TypeError'', [])"
    by (cases req) (simp_all add: messageText_def postChat_emb_def postChat_kw_def serverError_def)
  have e_retr: "fst ?Re = ServerError (if e = [] then ''Server error'' else e)
        \<and> (\<forall>p. ResponsesCreate p \<notin> set (snd ?Re))"
    if m: "messageText req = Some um" and r: "fst (findRelevantChunksEmbedding svc fp w um 8) = Inl e"
    for um e
  proof -
    obtain cs where f: "findRelevantChunksEmbedding svc fp w um 8 = (Inl e, cs)"
      using r by (cases "findRelevantChunksEmbedding svc fp w um 8") simp
    with postChat_printable [OF m, of svc fp w] retriever_calls [OF f]
    show ?thesis by (simp add: chat_emb_def Let_def serverError_def)
  qed
  have e_undef: "fst ?Re = ServerError ''TypeError'' \<and> (\<forall>p. ResponsesCreate p \<notin> set (snd ?Re))"
    if m: "messageText req = Some um" and r: "fst (findRelevantChunksEmbedding svc fp w um 8) = Inr hits"
      and u: "None \<in> set hits" for um hits
  proof -
    obtain cs where f: "findRelevantChunksEmbedding svc fp w um 8 = (Inr hits, cs)"
      using r by (cases "findRelevantChunksEmbedding svc fp w um 8") simp
    with postChat_printable [OF m, of svc fp w] retriever_calls [OF f]
      context_emb_undefined [OF u]
    show ?thesis by (simp add: chat_emb_def Let_def serverError_def)
  qed
  have e_model: "fst ?Re = (case responses_create svc (?Pe um hs) of
        Inl e \<Rightarrow> ServerError (if e = [] then ''Server error'' else e)
      | Inr out \<Rightarrow> Reply (if answerText_emb out = [] then fallback_emb else answerText_emb out))"
    if m: "messageText req = Some um"
      and r: "fst (findRelevantChunksEmbedding svc fp w um 8) = Inr (map Some hs)" for um hs
  proof -
    obtain cs where f: "findRelevantChunksEmbedding svc fp w um 8 = (Inr (map Some hs), cs)"
      using r by (cases "findRelevantChunksEmbedding svc fp w um 8") simp
    with postChat_printable [OF m, of svc fp w]
    show ?thesis
      by (simp add: chat_emb_def Let_def serverError_def context_emb_defined
          extractReply_emb_eq split: sum.split)
  qed
  have k_model: "fst ?Rk = (case create (?Pk um) of
        Inl e \<Rightarrow> ServerError (if e = [] then ''Server error'' else e)
      | Inr out \<Rightarrow> Reply (if answerText_kw out = [] then fallback_kw else answerText_kw out))"
    if "messageText req = Some um" for um
  proof -
    from postChat_printable [OF that, of svc fp w create v]
    have "postChat_kw create v req = chat_kw create v (if um = [] then None else Some um)"
      and "userMessageOf (if um = [] then None else Some um) = um" by simp_all
    then show ?thesis
      by (simp add: chat_kw_eq serverError_def extractReply_kw_eq split: sum.split)
  qed
  have e_iff: "(\<exists>r. fst ?Re = Reply r) \<longleftrightarrow>
        (\<exists>um hs out. messageText req = Some um
           \<and> fst (findRelevantChunksEmbedding svc fp w um 8) = Inr (map Some hs)
           \<and> responses_create svc (?Pe um hs) = Inr out)"
  proof
    assume r: "\<exists>r. fst ?Re = Reply r"
    show "\<exists>um hs out. messageText req = Some um
           \<and> fst (findRelevantChunksEmbedding svc fp w um 8) = Inr (map Some hs)
           \<and> responses_create svc (?Pe um hs) = Inr out"
    proof (cases "messageText req")
      case None
      with none r show ?thesis by simp
    next
      case (Some um)
      show ?thesis
      proof (cases "fst (findRelevantChunksEmbedding svc fp w um 8)")
        case (Inl e)
        with e_retr [OF Some] r show ?thesis by simp
      next
        case (Inr hits)
        show ?thesis
        proof (cases "None \<in> set hits")
          case True
          with e_undef [OF Some Inr] r show ?thesis by simp
        next
          case False
          from all_defined [OF this] obtain hs where hs: "hits = map Some hs" by blast
          with Inr have f: "fst (findRelevantChunksEmbedding svc fp w um 8) = Inr (map Some hs)"
            by simp
          from e_model [OF Some f] r obtain out where
            "responses_create svc (?Pe um hs) = Inr out"
            by (cases "responses_create svc (?Pe um hs)") auto
          with Some f show ?thesis by blast
        qed
      qed
    qed
  next
    assume "\<exists>um hs out. messageText req = Some um
           \<and> fst (findRelevantChunksEmbedding svc fp w um 8) = Inr (map Some hs)
           \<and> responses_create svc (?Pe um hs) = Inr out"
    then obtain um hs out where "messageText req = Some um"
      "fst (findRelevantChunksEmbedding svc fp w um 8) = Inr (map Some hs)"
      "responses_create svc (?Pe um hs) = Inr out" by blast
    with e_model [of um hs] show "\<exists>r. fst ?Re = Reply r" by simp
  qed
  have k_iff: "(\<exists>r. fst ?Rk = Reply r) \<longleftrightarrow>
        (\<exists>um out. messageText req = Some um \<and> create (?Pk um) = Inr out)"
  proof (cases "messageText req")
    case None
    with none show ?thesis by simp
  next
    case (Some um)
    with k_model [OF Some] show ?thesis by (cases "create (?Pk um)") auto
  qed
  have e_two: "(\<exists>r. fst ?Re = Reply r \<and> r \<noteq> []) \<or> (\<exists>e. fst ?Re = ServerError e \<and> e \<noteq> [])"
  proof (cases "messageText req")
    case None
    with none show ?thesis by simp
  next
    case (Some um)
    show ?thesis
    proof (cases "fst (findRelevantChunksEmbedding svc fp w um 8)")
      case (Inl e)
      with e_retr [OF Some] show ?thesis by simp
    next
      case (Inr hits)
      show ?thesis
      proof (cases "None \<in> set hits")
        case True
        with e_undef [OF Some Inr] show ?thesis by simp
      next
        case False
        from all_defined [OF this] obtain hs where hs: "hits = map Some hs" by blast
        with Inr have f: "fst (findRelevantChunksEmbedding svc fp w um 8) = Inr (map Some hs)"
          by simp
        from e_model [OF Some f] fallback_nonempty show ?thesis
          by (cases "responses_create svc (?Pe um hs)") auto
      qed
    qed
  qed
  have k_two: "(\<exists>r. fst ?Rk = Reply r \<and> r \<noteq> []) \<or> (\<exists>e. fst ?Rk = ServerError e \<and> e \<noteq> [])"
  proof (cases "messageText req")
    case None
    with none show ?thesis by simp
  next
    case (Some um)
    from k_model [OF Some] fallback_nonempty show ?thesis
      by (cases "create (?Pk um)") auto
  qed
  have c3: "messageText req = None \<longrightarrow> ?Re = (ServerError ''TypeError'', [])"
    using none by simp
  have c4: "\<forall>um e. messageText req = Some um
          \<and> fst (findRelevantChunksEmbedding svc fp w um 8) = Inl e \<longrightarrow>
          fst ?Re = ServerError (if e = [] then ''Server error'' else e)
          \<and> (\<forall>p. ResponsesCreate p \<notin> set (snd ?Re))"
    using e_retr by blast
  have c5: "\<forall>um e. fst (findRelevantChunksEmbedding svc fp w um 8) = Inl e \<longleftrightarrow>
          knowledge w \<noteq> [] \<and> embeddings w \<noteq> [] \<and>
          (embeddings_create svc [um] = Inl e \<or>
           (embeddings_create svc [um] = Inr [] \<and> e = ''TypeError''))"
    by (intro allI) (rule retriever_throws)
  have c6: "\<forall>um hits. messageText req = Some um
          \<and> fst (findRelevantChunksEmbedding svc fp w um 8) = Inr hits \<and> None \<in> set hits \<longrightarrow>
          fst ?Re = ServerError ''TypeError''
          \<and> (\<forall>p. ResponsesCreate p \<notin> set (snd ?Re))"
    using e_undef by blast
  have c7: "\<forall>um hs e. messageText req = Some um
          \<and> fst (findRelevantChunksEmbedding svc fp w um 8) = Inr (map Some hs)
          \<and> responses_create svc (?Pe um hs) = Inl e \<longrightarrow>
          fst ?Re = ServerError (if e = [] then ''Server error'' else e)"
  proof (intro allI impI)
    fix um hs e
    assume a: "messageText req = Some um
          \<and> fst (findRelevantChunksEmbedding svc fp w um 8) = Inr (map Some hs)
          \<and> responses_create svc (?Pe um hs) = Inl e"
    then have "fst ?Re = (case responses_create svc (?Pe um hs) of
        Inl e \<Rightarrow> ServerError (if e = [] then ''Server error'' else e)
      | Inr out \<Rightarrow> Reply (if answerText_emb out = [] then fallback_emb else answerText_emb out))"
      by (intro e_model) simp_all
    with a show "fst ?Re = ServerError (if e = [] then ''Server error'' else e)" by simp
  qed
  have c8: "\<forall>um hs out. messageText req = Some um
          \<and> fst (findRelevantChunksEmbedding svc fp w um 8) = Inr (map Some hs)
          \<and> responses_create svc (?Pe um hs) = Inr out \<longrightarrow>
          fst ?Re = Reply (if answerText_emb out = [] then fallback_emb else answerText_emb out)"
  proof (intro allI impI)
    fix um hs out
    assume a: "messageText req = Some um
          \<and> fst (findRelevantChunksEmbedding svc fp w um 8) = Inr (map Some hs)
          \<and> responses_create svc (?Pe um hs) = Inr out"
    then have "fst ?Re = (case responses_create svc (?Pe um hs) of
        Inl e \<Rightarrow> ServerError (if e = [] then ''Server error'' else e)
      | Inr out \<Rightarrow> Reply (if answerText_emb out = [] then fallback_emb else answerText_emb out))"
      by (intro e_model) simp_all
    with a show "fst ?Re =
        Reply (if answerText_emb out = [] then fallback_emb else answerText_emb out)" by simp
  qed
  have c11: "messageText req = None \<longrightarrow> ?Rk = (ServerError ''TypeError'', [])"
    using none by simp
  have c12: "\<forall>um e. messageText req = Some um \<and> create (?Pk um) = Inl e \<longrightarrow>
          fst ?Rk = ServerError (if e = [] then ''Server error'' else e)"
  proof (intro allI impI)
    fix um e
    assume a: "messageText req = Some um \<and> create (?Pk um) = Inl e"
    then have "messageText req = Some um" by simp
    from k_model [OF this] a
    show "fst ?Rk = ServerError (if e = [] then ''Server error'' else e)" by simp
  qed
  have c13: "\<forall>um out. messageText req = Some um \<and> create (?Pk um) = Inr out \<longrightarrow>
          fst ?Rk = Reply (if answerText_kw out = [] then fallback_kw else answerText_kw out)"
  proof (intro allI impI)
    fix um out
    assume a: "messageText req = Some um \<and> create (?Pk um) = Inr out"
    then have "messageText req = Some um" by simp
    from k_model [OF this] a
    show "fst ?Rk = Reply (if answerText_kw out = [] then fallback_kw else answerText_kw out)"
      by simp
  qed
  show ?thesis
    apply (intro conjI)
    subgoal by (rule e_two)
    subgoal by (rule e_iff)
    subgoal by (rule c3)
    subgoal by (rule c4)
    subgoal by (rule c5)
    subgoal by (rule c6)
    subgoal by (rule c7)
    subgoal by (rule c8)
    subgoal by (rule k_two)
    subgoal by (rule k_iff)
    subgoal by (rule c11)
    subgoal by (rule c12)
    subgoal by (rule c13)
    done
qed

lemma lopsided_top8:
  "findRelevantChunksEmbedding toyServices realArith lopsidedWorld ''old?'' 8 =
     (Inr [Some \<lparr>chunk_text = ''old'', chunk_source = ''a''\<rparr>, None],
      [EmbeddingsCreate [''old?'']])"
proof -
  have 1: "scoredEmbedding realArith [1, 0] [[1, 0], [0, 1]] =
      [(0, 100000000 / 100000001), (1, 0)]"
    by (simp add: scoredEmbedding_def cosineSim_def realArith_def enumerate_eq_zip)
  have 2: "jsSort (byScore realArith) [(0, 100000000 / 100000001), (Suc 0, 0)] =
      [(0, 100000000 / 100000001), (Suc 0, 0 :: real)]"
    by (simp add: jsSort_def byScore_def realArith_def)
  show ?thesis
    by (simp add: findRelevantChunksEmbedding_def rank_query case_prod_unfold)
       (simp add: lopsidedWorld_def 1 2 jsSlice0_def nthOpt_def)
qed

theorem chat_outcomes_witness:
  "messageText (Printable ''old?'') = Some ''old?''
   \<and> fst (findRelevantChunksEmbedding answeringServices realArith rankWorld ''old?'' 8) =
       Inr (map Some [\<lparr>chunk_text = ''old'', chunk_source = ''a''\<rparr>,
                      \<lparr>chunk_text = ''newer'', chunk_source = ''b''\<rparr>])
   \<and> responses_create answeringServices
        [(System, system_emb @ referenceBlock ''Studio Reference:''
            (map passage_emb [\<lparr>chunk_text = ''old'', chunk_source = ''a''\<rparr>,
                              \<lparr>chunk_text = ''newer'', chunk_source = ''b''\<rparr>])),
         (User, ''old?'')] =
       Inr \<lparr>out_output_text = Some ''Yes.'', out_output = None, out_response_output_text = None\<rparr>
   \<and> fst (postChat_emb answeringServices realArith rankWorld (Printable ''old?'')) = Reply ''Yes.''
   \<and> fst (postChat_emb toyServices realArith rankWorld (Printable ''old?'')) = Reply fallback_emb
   \<and> messageText Unprintable = None
   \<and> postChat_emb answeringServices realArith rankWorld Unprintable =
       (ServerError ''TypeError'', [])
   \<and> knowledge rankWorld \<noteq> [] \<and> embeddings rankWorld \<noteq> []
   \<and> embeddings_create downServices [''old?''] = Inl ''down''
   \<and> fst (findRelevantChunksEmbedding downServices realArith rankWorld ''old?'' 8) = Inl ''down''
   \<and> fst (postChat_emb downServices realArith rankWorld (Printable ''old?'')) = ServerError ''down''
   \<and> fst (findRelevantChunksEmbedding answeringServices realArith lopsidedWorld ''old?'' 8) =
       Inr [Some \<lparr>chunk_text = ''old'', chunk_source = ''a''\<rparr>, None]
   \<and> fst (postChat_emb answeringServices realArith lopsidedWorld (Printable ''old?'')) =
       ServerError ''TypeError''
   \<and> responses_create failingServices
        [(System, system_emb @ referenceBlock ''Studio Reference:''
            (map passage_emb [\<lparr>chunk_text = ''old'', chunk_source = ''a''\<rparr>,
                              \<lparr>chunk_text = ''newer'', chunk_source = ''b''\<rparr>])),
         (User, ''old?'')] = Inl ''boom''
   \<and> fst (postChat_emb failingServices realArith rankWorld (Printable ''old?'')) =
       ServerError ''boom''
   \<and> messageText Falsy = Some []
   \<and> fst (postChat_emb answeringServices realArith emptyWorld Falsy) = Reply ''Yes.''
   \<and> fst (postChat_kw answeringModel sampleWorld_kw (Printable ''old?'')) = Reply ''Yes.''
   \<and> fst (postChat_kw silentModel sampleWorld_kw Falsy) = Reply fallback_kw
   \<and> fst (postChat_kw failingModel sampleWorld_kw (Printable ''old?'')) = ServerError ''boom''
   \<and> postChat_kw answeringModel sampleWorld_kw Unprintable = (ServerError ''TypeError'', [])"
proof -
  note o3 = chat_outcomes [THEN conjunct2, THEN conjunct2, THEN conjunct1, rule_format]
  note o4 = chat_outcomes [THEN conjunct2, THEN conjunct2, THEN conjunct2, THEN conjunct1,
      rule_format]
  note o5 = chat_outcomes [THEN conjunct2, THEN conjunct2, THEN conjunct2, THEN conjunct2,
      THEN conjunct1, rule_format]
  note o6 = chat_outcomes [THEN conjunct2, THEN conjunct2, THEN conjunct2, THEN conjunct2,
      THEN conjunct2, THEN conjunct1, rule_format]
  note o7 = chat_outcomes [THEN conjunct2, THEN conjunct2, THEN conjunct2, THEN conjunct2,
      THEN conjunct2, THEN conjunct2, THEN conjunct1, rule_format]
  note o8 = chat_outcomes [THEN conjunct2, THEN conjunct2, THEN conjunct2, THEN conjunct2,
      THEN conjunct2, THEN conjunct2, THEN conjunct2, THEN conjunct1, rule_format]
  note o11 = chat_outcomes [THEN conjunct2, THEN conjunct2, THEN conjunct2, THEN conjunct2,
      THEN conjunct2, THEN conjunct2, THEN conjunct2, THEN conjunct2, THEN conjunct2,
      THEN conjunct2, THEN conjunct1, rule_format]
  note o12 = chat_outcomes [THEN conjunct2, THEN conjunct2, THEN conjunct2, THEN conjunct2,
      THEN conjunct2, THEN conjunct2, THEN conjunct2, THEN conjunct2, THEN conjunct2,
      THEN conjunct2, THEN conjunct2, THEN conjunct1, rule_format]
  note o13 = chat_outcomes [THEN conjunct2, THEN conjunct2, THEN conjunct2, THEN conjunct2,
      THEN conjunct2, THEN conjunct2, THEN conjunct2, THEN conjunct2, THEN conjunct2,
      THEN conjunct2, THEN conjunct2, THEN conjunct2, rule_format]
  let ?old = "\<lparr>chunk_text = ''old'', chunk_source = ''a''\<rparr>"
  let ?newer = "\<lparr>chunk_text = ''newer'', chunk_source = ''b''\<rparr>"
  let ?yes = "\<lparr>out_output_text = Some ''Yes.'', out_output = None,
      out_response_output_text = None\<rparr>"
  have q: "messageText (Printable ''old?'') = Some ''old?''" "messageText Unprintable = None"
    "messageText Falsy = Some []"
    by (simp_all add: messageText_def)
  have ne: "knowledge rankWorld \<noteq> []" "embeddings rankWorld \<noteq> []"
    by (simp_all add: rankWorld_def)
  have m: "\<And>p. responses_create answeringServices p = Inr ?yes"
    "\<And>p. responses_create toyServices p = Inr silentOut"
    "\<And>p. responses_create failingServices p = Inl ''boom''"
    "\<And>p. answeringModel p = Inr ?yes" "\<And>p. silentModel p = Inr silentOut"
    "\<And>p. failingModel p = Inl ''boom''"
    by (simp_all add: answeringServices_def toyServices_def failingServices_def
        answeringModel_def silentModel_def failingModel_def)
  have r_toy: "fst (findRelevantChunksEmbedding toyServices realArith rankWorld ''old?'' 8) =
      Inr (map Some [?old, ?newer])"
    by (simp add: rank_top8)
  have r_ans: "fst (findRelevantChunksEmbedding answeringServices realArith rankWorld ''old?'' 8) =
      Inr (map Some [?old, ?newer])"
    unfolding answeringServices_def retriever_services by (simp add: rank_top8)
  have r_fail: "fst (findRelevantChunksEmbedding failingServices realArith rankWorld ''old?'' 8) =
      Inr (map Some [?old, ?newer])"
    unfolding failingServices_def retriever_services by (simp add: rank_top8)
  have r_lop: "fst (findRelevantChunksEmbedding answeringServices realArith lopsidedWorld
      ''old?'' 8) = Inr [Some ?old, None]"
    unfolding answeringServices_def retriever_services by (simp add: lopsided_top8)
  have r_empty: "fst (findRelevantChunksEmbedding answeringServices realArith emptyWorld [] 8) =
      Inr (map Some [])"
    by (simp add: findRelevantChunksEmbedding_def emptyWorld_def)
  have d: "embeddings_create downServices [''old?''] = Inl ''down''"
    by (simp add: downServices_def downEmbed_def)
  have r_down: "fst (findRelevantChunksEmbedding downServices realArith rankWorld ''old?'' 8) =
      Inl ''down''"
    using o5 [of downServices realArith rankWorld "''old?''" "''down''"] ne d by simp
  have A: "fst (postChat_emb answeringServices realArith rankWorld (Printable ''old?'')) =
      Reply ''Yes.''"
    using o8 [OF conjI [OF q(1) conjI [OF r_ans m(1)]]] by (simp add: yes_answer)
  have B: "fst (postChat_emb toyServices realArith rankWorld (Printable ''old?'')) =
      Reply fallback_emb"
    using o8 [OF conjI [OF q(1) conjI [OF r_toy m(2)]]] by (simp add: silent_answer)
  have C: "postChat_emb answeringServices realArith rankWorld Unprintable =
      (ServerError ''TypeError'', [])"
    by (rule o3) (rule q(2))
  have D: "fst (postChat_emb downServices realArith rankWorld (Printable ''old?'')) =
      ServerError ''down''"
    using o4 [OF conjI [OF q(1) r_down]] by simp
  have E: "fst (postChat_emb answeringServices realArith lopsidedWorld (Printable ''old?'')) =
      ServerError ''TypeError''"
    using o6 [OF conjI [OF q(1) conjI [OF r_lop]]] by simp
  have F: "fst (postChat_emb failingServices realArith rankWorld (Printable ''old?'')) =
      ServerError ''boom''"
    using o7 [OF conjI [OF q(1) conjI [OF r_fail m(3)]]] by simp
  have G: "fst (postChat_emb answeringServices realArith emptyWorld Falsy) = Reply ''Yes.''"
    using o8 [OF conjI [OF q(3) conjI [OF r_empty m(1)]]] by (simp add: yes_answer)
  have H: "fst (postChat_kw answeringModel sampleWorld_kw (Printable ''old?'')) = Reply ''Yes.''"
    using o13 [OF conjI [OF q(1) m(4)]] by (simp add: yes_answer)
  have I: "fst (postChat_kw silentModel sampleWorld_kw Falsy) = Reply fallback_kw"
    using o13 [OF conjI [OF q(3) m(5)]] by (simp add: silent_answer)
  have J: "fst (postChat_kw failingModel sampleWorld_kw (Printable ''old?'')) =
      ServerError ''boom''"
    using o12 [OF conjI [OF q(1) m(6)]] by simp
  have K: "postChat_kw answeringModel sampleWorld_kw Unprintable = (ServerError ''TypeError'', [])"
    by (rule o11) (rule q(2))
  show ?thesis
    apply (intro conjI)
    subgoal by (rule q(1))
    subgoal by (rule r_ans)
    subgoal by (rule m(1))
    subgoal by (rule A)
    subgoal by (rule B)
    subgoal by (rule q(2))
    subgoal by (rule C)
    subgoal by (rule ne(1))
    subgoal by (rule ne(2))
    subgoal by (rule d)
    subgoal by (rule r_down)
    subgoal by (rule D)
    subgoal by (rule r_lop)
    subgoal by (rule E)
    subgoal by (rule m(3))
    subgoal by (rule F)
    subgoal by (rule q(3))
    subgoal by (rule G)
    subgoal by (rule H)
    subgoal by (rule I)
    subgoal by (rule J)
    subgoal by (rule K)
    done
qed

end
